theory Spec2Isabelle
  imports Complex_Main "HOL-Library.AList"
begin

section \<open>Forward collision warning service: sessions, workers and heart beat\<close>

text \<open>
  The repository holds two variants of the service front end and one worker:
  \<^item> \<^verbatim>\<open>fcw-service/fcw_service/interface.py\<close>: class \<^verbatim>\<open>Server\<close>
    (\<^verbatim>\<open>heart_beat\<close>, \<^verbatim>\<open>image_callback\<close>, \<^verbatim>\<open>command_callback\<close>,
    \<^verbatim>\<open>disconnect_callback\<close>);
  \<^item> \<^verbatim>\<open>fcw/service/interface.py\<close>: the websocket handlers
    (\<^verbatim>\<open>heart_beat_timer\<close>, \<^verbatim>\<open>image_callback_websocket\<close>,
    \<^verbatim>\<open>command_callback_websocket\<close>, \<^verbatim>\<open>disconnect_data\<close>);
  \<^item> \<^verbatim>\<open>fcw/service/collision_worker.py\<close>: class \<^verbatim>\<open>CollisionWorker\<close>.

  Python objects of the external libraries (images, detector, camera, detections,
  reference points, the collision guard) are values of one type variable \<open>'v\<close>;
  calls into these libraries are function parameters that return \<open>exn + _\<close>, with
  \<open>Inl\<close> for a raised exception. Floats are modelled by \<open>real\<close>.
\<close>

subsection \<open>Exceptions and Python dictionaries\<close>

text \<open>
  The exceptions that an \<^verbatim>\<open>except Exception\<close> clause catches; \<open>Exception\<close> with
  its text is any exception that has no constructor of its own.
\<close>

datatype exn =
  KeyError string
  | Full
  | ZeroDivisionError
  | ConnectionRefusedError string
  | TypeError string
  | UnknownChannelTypeUsed
  | Exception string

text \<open>
  A \<^verbatim>\<open>dict\<close> is an association list with distinct keys in insertion order:
  \<^verbatim>\<open>d[k] = v\<close> is \<^const>\<open>AList.update\<close> (an existing key keeps its place, a
  new key goes last), \<^verbatim>\<open>del d[k]\<close> is \<^const>\<open>AList.delete\<close>, \<^verbatim>\<open>k in d\<close>
  is \<open>dict_in\<close>, \<^verbatim>\<open>d.get(k)\<close> is \<^const>\<open>map_of\<close>.
\<close>

definition dict_in :: "'k \<Rightarrow> ('k \<times> 'a) list \<Rightarrow> bool" where
  "dict_in k d = (map_of d k \<noteq> None)"

text \<open>\<^verbatim>\<open>{k: v for (k, v) in kvs}\<close>: later pairs overwrite earlier ones with the same key.\<close>

definition dict_comprehension :: "('k \<times> 'a) list \<Rightarrow> ('k \<times> 'a) list" where
  "dict_comprehension kvs = fold (\<lambda>kv d. AList.update (fst kv) (snd kv) d) kvs []"

subsection \<open>The worker (\<^verbatim>\<open>collision_worker.py\<close>)\<close>

text \<open>
  The metadata dictionary that travels with an image. The worker reads the keys
  \<^verbatim>\<open>timestamp\<close>, \<^verbatim>\<open>recv_timestamp\<close> and \<^verbatim>\<open>websocket_id\<close> without
  checking that they exist, so each is optional here and a missing one is a
  \<^verbatim>\<open>KeyError\<close>.
\<close>

record metadata =
  md_sid :: "string option"
  md_timestamp :: "int option"
  md_recv_timestamp :: "int option"
  md_websocket_id :: "string option"
  md_timestamp_before_process :: "int option"
  md_timestamp_after_process :: "int option"

text \<open>
  What the worker reads of a \<^verbatim>\<open>KalmanBoxTracker\<close> and of the \<^verbatim>\<open>Sort\<close>
  tracker; \<open>get_state\<close> is the row \<^verbatim>\<open>t.get_state()[0]\<close>.
\<close>

record KalmanBoxTracker =
  tracker_id :: int
  hit_streak :: int
  time_since_update :: int
  get_state :: "real \<times> real \<times> real \<times> real"

record Sort =
  trackers :: "KalmanBoxTracker list"
  min_hits :: int

record detection =
  bbox :: "real list"
  dangerous_distance :: real

record result =
  r_timestamp :: int
  r_recv_timestamp :: int
  r_timestamp_before_process :: int
  r_timestamp_after_process :: int
  r_send_timestamp :: int
  r_detections :: "(int \<times> detection) list"

text \<open>One call \<^verbatim>\<open>sio.emit(event, data, namespace=..., to=...)\<close>.\<close>

record 'a emitted =
  em_event :: string
  em_data :: 'a
  em_namespace :: string
  em_to :: string

text \<open>
  The fields of \<^verbatim>\<open>CollisionWorker\<close>. \<open>stop_event\<close> is the flag of the
  \<^verbatim>\<open>Event\<close>; \<open>image_queue\<close> is the content of the queue, oldest first;
  \<open>sio\<close> is the list of messages emitted through \<^verbatim>\<open>self.sio\<close>, oldest first.
\<close>

record 'v CollisionWorker =
  name :: string
  stop_event :: bool
  image_queue :: "(metadata \<times> 'v) list"
  sio :: "result emitted list"
  frame_id :: nat
  latency_measurements :: "real list"
  detector :: 'v
  tracker :: Sort
  guard :: 'v
  camera :: 'v

text \<open>The calls the worker makes into the detection, tracking and transport libraries.\<close>

record 'v collaborators =
  detect :: "'v \<Rightarrow> 'v \<Rightarrow> exn + 'v"
  detections_to_numpy :: "'v \<Rightarrow> exn + 'v"
  update_tracker :: "Sort \<Rightarrow> 'v \<Rightarrow> exn + Sort"
  get_reference_points :: "(int \<times> KalmanBoxTracker) list \<Rightarrow> 'v \<Rightarrow> bool \<Rightarrow> exn + 'v"
  update_guard :: "'v \<Rightarrow> 'v \<Rightarrow> exn + 'v"
  dangerous_objects :: "'v \<Rightarrow> exn + (int \<times> 'v) list"
  distance :: "'v \<Rightarrow> 'v \<Rightarrow> exn + real"
  sio_emit :: "result emitted \<Rightarrow> exn option"

text \<open>\<^verbatim>\<open>CollisionWorker.stop\<close>: \<^verbatim>\<open>self.stop_event.set()\<close>.\<close>

definition stop :: "'v CollisionWorker \<Rightarrow> 'v CollisionWorker" where
  "stop w = w\<lparr>stop_event := True\<rparr>"

text \<open>
  The filter of \<^verbatim>\<open>process_image\<close>:
  \<^verbatim>\<open>t.hit_streak > self.tracker.min_hits and t.time_since_update < 1\<close>.
\<close>

definition reported :: "Sort \<Rightarrow> KalmanBoxTracker \<Rightarrow> bool" where
  "reported trk t = (hit_streak t > min_hits trk \<and> time_since_update t < 1)"

text \<open>
  \<^verbatim>\<open>{t.id: t for t in self.tracker.trackers if ...}\<close>
\<close>

definition tracked_objects_of :: "Sort \<Rightarrow> (int \<times> KalmanBoxTracker) list" where
  "tracked_objects_of trk =
     dict_comprehension (map (\<lambda>t. (tracker_id t, t)) (filter (reported trk) (trackers trk)))"

text \<open>
  \<^verbatim>\<open>CollisionWorker.process_image\<close>. It returns the worker as the call leaves it
  and either the exception that ended the call or the dictionary of tracked
  objects. A call into a library that raises is taken to leave the object it was
  called on as it was.
\<close>

definition process_image ::
  "'v collaborators \<Rightarrow> 'v CollisionWorker \<Rightarrow> 'v \<Rightarrow>
     'v CollisionWorker \<times> (exn + (int \<times> KalmanBoxTracker) list)" where
  "process_image env w img =
     (case detect env (detector w) img of
        Inl e \<Rightarrow> (w, Inl e)
      | Inr detections \<Rightarrow>
     (case detections_to_numpy env detections of
        Inl e \<Rightarrow> (w, Inl e)
      | Inr detections_np \<Rightarrow>
     (case update_tracker env (tracker w) detections_np of
        Inl e \<Rightarrow> (w, Inl e)
      | Inr trk \<Rightarrow>
     (let w1 = w\<lparr>tracker := trk\<rparr>;
          tracked_objects = tracked_objects_of (tracker w1)
      in case get_reference_points env tracked_objects (camera w1) True of
        Inl e \<Rightarrow> (w1, Inl e)
      | Inr ref_points \<Rightarrow>
     (case update_guard env (guard w1) ref_points of
        Inl e \<Rightarrow> (w1, Inl e)
      | Inr g \<Rightarrow> (w1\<lparr>guard := g\<rparr>, Inr tracked_objects))))))"

text \<open>
  The loop of \<^verbatim>\<open>publish_results\<close> over \<^verbatim>\<open>tracked_objects.items()\<close>, which
  fills the dictionary \<^verbatim>\<open>detections\<close>.
\<close>

fun publish_detections ::
  "'v collaborators \<Rightarrow> 'v \<Rightarrow> (int \<times> 'v) list \<Rightarrow> (int \<times> KalmanBoxTracker) list \<Rightarrow>
     (int \<times> detection) list \<Rightarrow> exn + (int \<times> detection) list" where
  "publish_detections env g dangerous [] detections = Inr detections"
| "publish_detections env g dangerous ((tid, t) # rest) detections =
     (case get_state t of (x1, y1, x2, y2) \<Rightarrow>
      (case map_of dangerous tid of
         None \<Rightarrow>
           publish_detections env g dangerous rest
             (AList.update tid \<lparr>bbox = [x1, y1, x2, y2], dangerous_distance = 0\<rparr> detections)
       | Some obj \<Rightarrow>
          (case distance env obj g of
             Inl e \<Rightarrow> Inl e
           | Inr d \<Rightarrow>
               publish_detections env g dangerous rest
                 (AList.update tid \<lparr>bbox = [x1, y1, x2, y2], dangerous_distance = d\<rparr>
                    detections))))"

text \<open>A read \<^verbatim>\<open>metadata[key]\<close> of a key that may be missing.\<close>

definition metadata_get :: "string \<Rightarrow> 'a option \<Rightarrow> exn + 'a" where
  "metadata_get key v = (case v of None \<Rightarrow> Inl (KeyError key) | Some x \<Rightarrow> Inr x)"

text \<open>
  \<^verbatim>\<open>CollisionWorker.publish_results\<close>; \<open>send_timestamp\<close> is the clock reading
  taken while the result is built. \<open>tracked_objects\<close> is \<open>None\<close> for Python's
  \<^verbatim>\<open>None\<close>, in which case nothing is emitted.
\<close>

definition publish_results ::
  "'v collaborators \<Rightarrow> int \<Rightarrow> 'v CollisionWorker \<Rightarrow> (int \<times> KalmanBoxTracker) list option \<Rightarrow>
     metadata \<Rightarrow> 'v CollisionWorker \<times> exn option" where
  "publish_results env send_timestamp w tracked_objects metadata =
     (case dangerous_objects env (guard w) of
        Inl e \<Rightarrow> (w, Some e)
      | Inr dangerous \<Rightarrow>
     (case tracked_objects of
        None \<Rightarrow> (w, None)
      | Some tracked \<Rightarrow>
     (case publish_detections env (guard w) dangerous tracked [] of
        Inl e \<Rightarrow> (w, Some e)
      | Inr detections \<Rightarrow>
     (case metadata_get ''timestamp'' (md_timestamp metadata) of
        Inl e \<Rightarrow> (w, Some e)
      | Inr ts \<Rightarrow>
     (case metadata_get ''recv_timestamp'' (md_recv_timestamp metadata) of
        Inl e \<Rightarrow> (w, Some e)
      | Inr recv_ts \<Rightarrow>
     (case metadata_get ''timestamp_before_process'' (md_timestamp_before_process metadata) of
        Inl e \<Rightarrow> (w, Some e)
      | Inr before_ts \<Rightarrow>
     (case metadata_get ''timestamp_after_process'' (md_timestamp_after_process metadata) of
        Inl e \<Rightarrow> (w, Some e)
      | Inr after_ts \<Rightarrow>
     (case metadata_get ''websocket_id'' (md_websocket_id metadata) of
        Inl e \<Rightarrow> (w, Some e)
      | Inr websocket_id \<Rightarrow>
     (let msg = \<lparr>em_event = ''message'',
                 em_data = \<lparr>r_timestamp = ts, r_recv_timestamp = recv_ts,
                            r_timestamp_before_process = before_ts,
                            r_timestamp_after_process = after_ts,
                            r_send_timestamp = send_timestamp,
                            r_detections = detections\<rparr>,
                 em_namespace = ''/results'', em_to = websocket_id\<rparr>
      in case sio_emit env msg of
           Some e \<Rightarrow> (w, Some e)
         | None \<Rightarrow> (w\<lparr>sio := sio w @ [msg]\<rparr>, None))))))))))"

text \<open>
  One pass of the \<^verbatim>\<open>while\<close> loop of \<^verbatim>\<open>CollisionWorker.run\<close> after its stop
  test. Other threads act on the worker while it waits in
  \<^verbatim>\<open>image_queue.get(block=True, timeout=1)\<close>: a pass is given what they did
  (\<open>Put\<close> an item into the queue, \<open>Set_stop\<close> by a call of \<^verbatim>\<open>stop\<close>, or
  \<open>Idle\<close>) and the three clock readings it may take.
\<close>

datatype 'v activity = Idle | Put "metadata \<times> 'v" | Set_stop

record 'v pass =
  others :: "'v activity"
  clock_before :: int
  clock_after :: int
  clock_send :: int

definition act :: "'v activity \<Rightarrow> 'v CollisionWorker \<Rightarrow> 'v CollisionWorker" where
  "act a w =
     (case a of
        Idle \<Rightarrow> w
      | Put item \<Rightarrow> w\<lparr>image_queue := image_queue w @ [item]\<rparr>
      | Set_stop \<Rightarrow> stop w)"

text \<open>
  The pass returns the worker and the exception that the \<^verbatim>\<open>except Exception\<close>
  clause caught and logged, if any.
\<close>

definition loop_body ::
  "'v collaborators \<Rightarrow> 'v pass \<Rightarrow> 'v CollisionWorker \<Rightarrow> 'v CollisionWorker \<times> exn option" where
  "loop_body env p w0 =
     (let w = act (others p) w0 in
      case image_queue w of
        [] \<Rightarrow> (w, None)
      | (metadata, img) # rest \<Rightarrow>
         (let metadata1 = metadata\<lparr>md_timestamp_before_process := Some (clock_before p)\<rparr>;
              w1 = w\<lparr>image_queue := rest, frame_id := frame_id w + 1\<rparr>
          in case process_image env w1 img of
               (w2, Inl e) \<Rightarrow> (w2, Some e)
             | (w2, Inr detections) \<Rightarrow>
                 (let metadata2 = metadata1\<lparr>md_timestamp_after_process := Some (clock_after p)\<rparr>
                  in publish_results env (clock_send p) w2 (Some detections) metadata2)))"

text \<open>
  \<^verbatim>\<open>CollisionWorker.run\<close> over the passes that were observed. \<open>Exited\<close>: the
  loop has ended and the thread returns; \<open>Running\<close>: the thread is still in the
  loop after the last observed pass.
\<close>

datatype thread_state = Running | Exited

fun run ::
  "'v collaborators \<Rightarrow> 'v pass list \<Rightarrow> 'v CollisionWorker \<Rightarrow> thread_state \<times> 'v CollisionWorker" where
  "run env [] w = (Running, w)"
| "run env (p # ps) w =
     (if stop_event w then (Exited, w) else run env ps (fst (loop_body env p w)))"

subsection \<open>What both front ends share\<close>

text \<open>
  \<^verbatim>\<open>queue.Queue(maxsize)\<close> of the standard library: \<open>queue\<close> is its content,
  oldest first.
\<close>

record 'a Queue =
  maxsize :: int
  queue :: "'a list"

record H264Decoder =
  dec_fps :: real
  dec_width :: int
  dec_height :: int

text \<open>
  \<^verbatim>\<open>TaskHandlerInternalQ\<close> of the interface library, as the front ends build it:
  the session id and the decoder are given by the websocket handlers only. The
  queue \<open>q\<close> is the object that the worker of the same session reads.
\<close>

record 'v TaskHandlerInternalQ =
  th_sid :: "string option"
  q :: "(metadata \<times> 'v) Queue"
  decoder :: "H264Decoder option"

text \<open>
  The dataclass \<^verbatim>\<open>TaskAndWorker\<close>. In \<^verbatim>\<open>Server\<close> the worker class comes from
  \<^verbatim>\<open>fcw_service.collision_worker\<close>, so the worker is of a type \<open>'w\<close> here and
  what the front end calls on it is a parameter. The websocket handlers build
  the \<^verbatim>\<open>CollisionWorker\<close> above; they call its constructor and \<^verbatim>\<open>start\<close>
  and read its latencies, which the same parameters stand for.
\<close>

record ('v, 'w) TaskAndWorker =
  task :: "'v TaskHandlerInternalQ"
  worker :: 'w

text \<open>
  \<^verbatim>\<open>ControlCmdType\<close> of the interface library: the front ends name \<^verbatim>\<open>INIT\<close>
  and \<^verbatim>\<open>SET_STATE\<close>; \<open>Other_cmd_type\<close> is any other member.
\<close>

datatype ControlCmdType = INIT | SET_STATE | Other_cmd_type string

text \<open>The dictionary \<^verbatim>\<open>command.data\<close>: a key that is missing is \<open>None\<close>.\<close>

record 'c command_data =
  arg_h264 :: "bool option"
  arg_config :: "(string \<times> 'c) list option"
  arg_camera_config :: "(string \<times> 'c) list option"
  arg_fps :: "real option"
  arg_width :: "int option"
  arg_height :: "int option"
  arg_viz :: "bool option"
  arg_viz_zmq_port :: "int option"

record 'c ControlCommand =
  cmd_type :: ControlCmdType
  data :: "'c command_data option"

text \<open>
  \<^verbatim>\<open>command and command.cmd_type == ty\<close>, for a command that may be \<^verbatim>\<open>None\<close>,
  and \<^verbatim>\<open>command.data\<close> where that test has passed.
\<close>

definition is_cmd :: "'c ControlCommand option \<Rightarrow> ControlCmdType \<Rightarrow> bool" where
  "is_cmd command ty = (case command of None \<Rightarrow> False | Some c \<Rightarrow> cmd_type c = ty)"

definition data_of :: "'c ControlCommand option \<Rightarrow> 'c command_data option" where
  "data_of command = (case command of None \<Rightarrow> None | Some c \<Rightarrow> data c)"

text \<open>The arguments of the constructor \<^verbatim>\<open>CollisionWorker(...)\<close> that vary.\<close>

record 'c worker_args =
  wa_config :: "(string \<times> 'c) list"
  wa_camera_config :: "(string \<times> 'c) list"
  wa_fps :: real
  wa_viz :: "bool option"
  wa_viz_zmq_port :: "int option"
  wa_name :: string

text \<open>The dictionary that arrives with an image.\<close>

record 'v image_data =
  d_timestamp :: "int option"
  d_frame :: "'v option"

datatype namespace = Data_namespace | Control_namespace | Results_namespace

text \<open>
  The payload of a \<^verbatim>\<open>command\<close> event, from which the websocket handler builds
  \<^verbatim>\<open>ControlCommand(**data)\<close>: \<^verbatim>\<open>None\<close>, a dictionary whose keys are not the
  fields of the dataclass, or a dictionary of its fields. The first two make the
  constructor raise \<^verbatim>\<open>TypeError\<close>.
\<close>

datatype 'c payload =
  None_payload
  | Malformed string
  | Fields "'c ControlCommand"

definition ControlCommand_of :: "'c payload \<Rightarrow> exn + 'c ControlCommand" where
  "ControlCommand_of p =
     (case p of
        None_payload \<Rightarrow> Inl (TypeError ''argument after ** must be a mapping, not NoneType'')
      | Malformed msg \<Rightarrow> Inl (TypeError msg)
      | Fields c \<Rightarrow> Inr c)"

text \<open>
  What \<^verbatim>\<open>Server\<close> sends. \<^verbatim>\<open>send_data\<close> of the server library has, after the
  data and the event, the channel type as its third positional parameter and
  the session id as the keyword \<^verbatim>\<open>sid\<close>; \<open>positional\<close> is the value a call
  passes in the third place.
\<close>

datatype event_name = DATA_ERROR_EVENT | Event string

datatype 'c message =
  Text string
  | Failed_to_create_CollisionWorker exn
  | Control_command_applied string string string "'c ControlCommand option"

datatype ChannelType = JSON | JPEG | H264

datatype positional = A_channel_type ChannelType | A_string string

text \<open>
  What the front ends take from their surroundings: the session ids of the
  transport, the environment variable \<^verbatim>\<open>NETAPP_INPUT_QUEUE\<close>, the worker class,
  the methods of \<^verbatim>\<open>TaskHandlerInternalQ\<close>, the decoders, and \<^verbatim>\<open>send_data\<close> of
  the server library, which gives the exception it raises, or \<open>None\<close> when the
  data were sent.
\<close>

record ('v, 'c, 'w) surroundings =
  eio_sid_from_sid :: "string \<Rightarrow> namespace \<Rightarrow> string"
  sid_from_eio_sid :: "string \<Rightarrow> namespace \<Rightarrow> string"
  NETAPP_INPUT_QUEUE :: int
  send_data :: "'c message \<Rightarrow> event_name \<Rightarrow> positional \<Rightarrow> string option \<Rightarrow> exn option"
  new_worker :: "'c worker_args \<Rightarrow> exn + 'w"
  start :: "'w \<Rightarrow> 'w"
  get_latencies :: "'w \<Rightarrow> real list"
  store_image :: "'v TaskHandlerInternalQ \<Rightarrow> metadata \<Rightarrow> 'v \<Rightarrow> exn + 'v TaskHandlerInternalQ"
  store_data :: "'v TaskHandlerInternalQ \<Rightarrow> metadata \<Rightarrow> 'v \<Rightarrow> exn + 'v TaskHandlerInternalQ"
  decode_packet_data :: "H264Decoder \<Rightarrow> 'v \<Rightarrow> exn + 'v"
  b64_imdecode :: "'v \<Rightarrow> exn + 'v"

text \<open>
  The loop that waits for the started worker, in both front ends:
  \<^verbatim>\<open>
  t0 = time.perf_counter_ns()
  while True:
      if tasks[eio_sid].worker.is_alive(): break
      if time.perf_counter_ns() > t0 + 5 * 1.0e9: (give up)
  \<close>
  Each pass of the loop observes \<^verbatim>\<open>is_alive()\<close> and then, when that is false,
  the clock; the list holds what the passes observe. \<open>Some True\<close>: left by
  \<^verbatim>\<open>break\<close>; \<open>Some False\<close>: gave up; \<open>None\<close>: still in the loop after the last
  observation.
\<close>

fun wait_for_worker :: "int \<Rightarrow> (bool \<times> int) list \<Rightarrow> bool option" where
  "wait_for_worker t0 [] = None"
| "wait_for_worker t0 ((is_alive, now) # polls) =
     (if is_alive then Some True
      else if now > t0 + 5 * 1000000000 then Some False
      else wait_for_worker t0 polls)"

text \<open>The report of \<^verbatim>\<open>send_middleware_heart_beat\<close>.\<close>

record heart_beat_report =
  avg_latency :: real
  queue_size :: int
  queue_occupancy :: int
  current_robot_count :: nat

text \<open>\<^verbatim>\<open>float(np.mean(np.array(latencies)))\<close>, in exact arithmetic.\<close>

definition np_mean :: "real list \<Rightarrow> real" where
  "np_mean xs = sum_list xs / real (length xs)"

text \<open>
  \<^verbatim>\<open>
  latencies = []
  for task_and_worker in tasks.values():
      latencies.extend(task_and_worker.worker.latency_measurements.get_latencies())
  \<close>
\<close>

definition all_latencies ::
  "('v, 'c, 'w) surroundings \<Rightarrow> (string \<times> ('v, 'w) TaskAndWorker) list \<Rightarrow> real list" where
  "all_latencies env ts =
     fold (\<lambda>task_and_worker latencies. latencies @ get_latencies env (worker task_and_worker))
       (map snd ts) []"

subsection \<open>The class \<^verbatim>\<open>Server\<close> (\<^verbatim>\<open>fcw_service/interface.py\<close>)\<close>

text \<open>
  What the server has sent: the calls of \<^verbatim>\<open>send_data\<close> that did not raise, with
  their arguments, and the calls \<^verbatim>\<open>send_command_error(m, sid)\<close>.
\<close>

datatype 'c sent =
  Send_data "'c message" event_name positional "string option"
  | Send_command_error "'c message" string

record ('v, 'c, 'w) Server =
  tasks :: "(string \<times> ('v, 'w) TaskAndWorker) list"
  outbox :: "'c sent list"

text \<open>\<^verbatim>\<open>Server.heart_beat\<close>\<close>

definition heart_beat ::
  "('v, 'c, 'w) surroundings \<Rightarrow> ('v, 'c, 'w) Server \<Rightarrow> heart_beat_report" where
  "heart_beat env self =
     (let latencies = all_latencies env (tasks self);
          avg = (if length latencies > 0 then np_mean latencies else 0)
      in \<lparr>avg_latency = avg, queue_size = NETAPP_INPUT_QUEUE env, queue_occupancy = 1,
          current_robot_count = length (tasks self)\<rparr>)"

text \<open>
  \<^verbatim>\<open>Server.image_callback\<close>; \<open>now\<close> is the reading of \<^verbatim>\<open>time.perf_counter_ns()\<close>.
  The second component is the exception that leaves the handler, if any. For a
  session that is not registered the handler calls
  \<^verbatim>\<open>self.send_data({"message": ...}, DATA_ERROR_EVENT, sid)\<close>: the namespace sid
  is the third positional argument and no keyword \<^verbatim>\<open>sid\<close> is given.
\<close>

definition image_callback ::
  "('v, 'c, 'w) surroundings \<Rightarrow> int \<Rightarrow> string \<Rightarrow> 'v image_data \<Rightarrow> ('v, 'c, 'w) Server \<Rightarrow>
     ('v, 'c, 'w) Server \<times> exn option" where
  "image_callback env now sid d self =
     (let eio_sid = eio_sid_from_sid env sid Data_namespace in
      case map_of (tasks self) eio_sid of
        None \<Rightarrow>
          (case send_data env (Text ''Non-registered client tried to send data'')
                  DATA_ERROR_EVENT (A_string sid) None of
             Some e \<Rightarrow> (self, Some e)
           | None \<Rightarrow>
               (self\<lparr>outbox := outbox self @
                   [Send_data (Text ''Non-registered client tried to send data'')
                      DATA_ERROR_EVENT (A_string sid) None]\<rparr>,
                None))
      | Some tw \<Rightarrow>
         (case d_timestamp d of
            None \<Rightarrow> (self, Some (KeyError ''timestamp''))
          | Some ts \<Rightarrow>
         (case d_frame d of
            None \<Rightarrow> (self, Some (KeyError ''frame''))
          | Some frame \<Rightarrow>
         (case store_data env (task tw)
                 \<lparr>md_sid = None, md_timestamp = Some ts, md_recv_timestamp = Some now,
                  md_websocket_id = None, md_timestamp_before_process = None,
                  md_timestamp_after_process = None\<rparr> frame of
            Inl e \<Rightarrow> (self, Some e)
          | Inr task' \<Rightarrow>
              (self\<lparr>tasks := AList.update eio_sid (tw\<lparr>task := task'\<rparr>) (tasks self)\<rparr>, None)))))"

text \<open>
  \<^verbatim>\<open>Server.command_callback\<close>; \<open>t0\<close> and \<open>polls\<close> are what the waiting loop
  observes. The result is \<open>None\<close> while the handler is still in that loop.
\<close>

definition command_callback ::
  "('v, 'c, 'w) surroundings \<Rightarrow> int \<Rightarrow> (bool \<times> int) list \<Rightarrow> 'c ControlCommand option \<Rightarrow> string \<Rightarrow>
     ('v, 'c, 'w) Server \<Rightarrow> (('v, 'c, 'w) Server \<times> bool \<times> 'c message) option" where
  "command_callback env t0 polls command sid self =
     (let eio_sid = eio_sid_from_sid env sid Control_namespace;
          applied = Control_command_applied eio_sid sid
                      (sid_from_eio_sid env eio_sid Data_namespace) command
      in
      if is_cmd command INIT then
        if dict_in eio_sid (tasks self) then
          Some (self\<lparr>outbox := outbox self @
                  [Send_command_error (Text ''Initialization has already been called before'') sid]\<rparr>,
                False, Text ''Initialization has already been called before'')
        else
          (let args = data_of command;
               config = (case args of None \<Rightarrow> [] | Some a \<Rightarrow> (case arg_config a of None \<Rightarrow> [] | Some c \<Rightarrow> c));
               camera_config = (case args of None \<Rightarrow> []
                                | Some a \<Rightarrow> (case arg_camera_config a of None \<Rightarrow> [] | Some c \<Rightarrow> c));
               fps = (case args of None \<Rightarrow> 30 | Some a \<Rightarrow> (case arg_fps a of None \<Rightarrow> 30 | Some f \<Rightarrow> f));
               viz = (case args of None \<Rightarrow> True | Some a \<Rightarrow> (case arg_viz a of None \<Rightarrow> True | Some b \<Rightarrow> b));
               viz_zmq_port = (case args of None \<Rightarrow> 5558
                               | Some a \<Rightarrow> (case arg_viz_zmq_port a of None \<Rightarrow> 5558 | Some p \<Rightarrow> p));
               image_queue = \<lparr>maxsize = NETAPP_INPUT_QUEUE env, queue = []\<rparr>;
               new_task = \<lparr>th_sid = None, q = image_queue, decoder = None\<rparr>
           in case new_worker env
                     \<lparr>wa_config = config, wa_camera_config = camera_config, wa_fps = fps,
                      wa_viz = Some viz, wa_viz_zmq_port = Some viz_zmq_port,
                      wa_name = ''Collision Worker '' @ eio_sid\<rparr> of
                Inl ex \<Rightarrow>
                  Some (self\<lparr>outbox := outbox self @
                          [Send_command_error (Failed_to_create_CollisionWorker ex) sid]\<rparr>,
                        False, Failed_to_create_CollisionWorker ex)
              | Inr new \<Rightarrow>
                 (let self1 = self\<lparr>tasks :=
                        AList.update eio_sid \<lparr>task = new_task, worker = new\<rparr> (tasks self)\<rparr>;
                      self2 = self1\<lparr>tasks :=
                        AList.update eio_sid \<lparr>task = new_task, worker = start env new\<rparr> (tasks self1)\<rparr>
                  in case wait_for_worker t0 polls of
                       None \<Rightarrow> None
                     | Some False \<Rightarrow> Some (self2, False, Text ''Timed out to start worker'')
                     | Some True \<Rightarrow> Some (self2, True, applied)))
      else Some (self, True, applied))"

text \<open>
  \<^verbatim>\<open>Server.disconnect_callback\<close>: the worker is stopped and joined, then the
  entry is deleted.
\<close>

definition disconnect_callback ::
  "('v, 'c, 'w) surroundings \<Rightarrow> string \<Rightarrow> ('v, 'c, 'w) Server \<Rightarrow> ('v, 'c, 'w) Server" where
  "disconnect_callback env sid self =
     (let eio_sid = eio_sid_from_sid env sid Data_namespace in
      case map_of (tasks self) eio_sid of
        None \<Rightarrow> self
      | Some task_and_worker \<Rightarrow> self\<lparr>tasks := AList.delete eio_sid (tasks self)\<rparr>)"

subsection \<open>The websocket handlers (\<^verbatim>\<open>fcw/service/interface.py\<close>)\<close>

text \<open>The text of an \<^verbatim>\<open>image_error\<close>, with the values its f-string prints.\<close>

datatype error_text =
  Not_connected
  | Data_does_not_contain_frame
  | Received_frame_with_older_timestamp int int int
  | Failed_to_decode_frame_data exn

record image_error =
  ie_timestamp :: int
  ie_error :: error_text

text \<open>
  The module's globals \<^verbatim>\<open>tasks\<close> and \<^verbatim>\<open>last_timestamp\<close>, and the messages
  emitted through \<^verbatim>\<open>sio.emit\<close>, oldest first.
\<close>

record ('v, 'w) websocket_module =
  tasks_ws :: "(string \<times> ('v, 'w) TaskAndWorker) list"
  last_timestamp :: int
  emitted_ws :: "image_error emitted list"

text \<open>\<^verbatim>\<open>heart_beat_timer\<close>, without the timer it starts for the next report.\<close>

definition heart_beat_timer ::
  "('v, 'c, 'w) surroundings \<Rightarrow> ('v, 'w) websocket_module \<Rightarrow> heart_beat_report" where
  "heart_beat_timer env m =
     (let latencies = all_latencies env (tasks_ws m);
          avg = (if length latencies > 0 then np_mean latencies else 0)
      in \<lparr>avg_latency = avg, queue_size = 1, queue_occupancy = 1,
          current_robot_count = length (tasks_ws m)\<rparr>)"

definition emit_image_error ::
  "string \<Rightarrow> int \<Rightarrow> error_text \<Rightarrow> ('v, 'w) websocket_module \<Rightarrow> ('v, 'w) websocket_module" where
  "emit_image_error sid timestamp err m =
     m\<lparr>emitted_ws := emitted_ws m @
         [\<lparr>em_event = ''image_error'',
           em_data = \<lparr>ie_timestamp = timestamp, ie_error = err\<rparr>,
           em_namespace = ''/data'', em_to = sid\<rparr>]\<rparr>"

text \<open>
  How a call of \<^verbatim>\<open>image_callback_websocket\<close> ends: by one of its four
  \<^verbatim>\<open>image_error\<close> returns, after \<^verbatim>\<open>task.store_image\<close> has taken the image, or
  by an exception of \<^verbatim>\<open>store_image\<close>.
\<close>

datatype image_outcome = Image_error error_text | Stored | Raised exn

text \<open>
  \<^verbatim>\<open>
  if 'timestamp' in data: timestamp = data['timestamp']
  else: timestamp = 0
  \<close>
\<close>

definition timestamp_of :: "'v image_data \<Rightarrow> int" where
  "timestamp_of d = (case d_timestamp d of Some t \<Rightarrow> t | None \<Rightarrow> 0)"

text \<open>\<^verbatim>\<open>image_callback_websocket\<close>; \<open>now\<close> is the reading of the clock.\<close>

definition image_callback_websocket ::
  "('v, 'c, 'w) surroundings \<Rightarrow> int \<Rightarrow> string \<Rightarrow> 'v image_data \<Rightarrow> ('v, 'w) websocket_module \<Rightarrow>
     ('v, 'w) websocket_module \<times> image_outcome" where
  "image_callback_websocket env now sid d m =
     (let timestamp = timestamp_of d;
          eio_sid = eio_sid_from_sid env sid Data_namespace
      in
      case map_of (tasks_ws m) eio_sid of
        None \<Rightarrow> (emit_image_error sid timestamp Not_connected m, Image_error Not_connected)
      | Some tw \<Rightarrow>
     (case d_frame d of
        None \<Rightarrow> (emit_image_error sid timestamp Data_does_not_contain_frame m,
                  Image_error Data_does_not_contain_frame)
      | Some frame \<Rightarrow>
      if timestamp - last_timestamp m < 0 then
        (let err = Received_frame_with_older_timestamp timestamp (last_timestamp m)
                     (timestamp - last_timestamp m)
         in (emit_image_error sid timestamp err m, Image_error err))
      else
        (let m1 = m\<lparr>last_timestamp := timestamp\<rparr> in
         case (case decoder (task tw) of
                 Some dec \<Rightarrow> decode_packet_data env dec frame
               | None \<Rightarrow> b64_imdecode env frame) of
           Inl error \<Rightarrow>
             (emit_image_error sid timestamp (Failed_to_decode_frame_data error) m1,
              Image_error (Failed_to_decode_frame_data error))
         | Inr img \<Rightarrow>
            (case store_image env (task tw)
                    \<lparr>md_sid = Some eio_sid, md_timestamp = Some timestamp,
                     md_recv_timestamp = Some now,
                     md_websocket_id = Some (sid_from_eio_sid env
                        (eio_sid_from_sid env sid Data_namespace) Results_namespace),
                     md_timestamp_before_process = None,
                     md_timestamp_after_process = None\<rparr> img of
               Inl e \<Rightarrow> (m1, Raised e)
             | Inr task' \<Rightarrow>
                 (m1\<lparr>tasks_ws := AList.update eio_sid (tw\<lparr>task := task'\<rparr>) (tasks_ws m1)\<rparr>,
                  Stored)))))"

text \<open>
  \<^verbatim>\<open>command_callback_websocket\<close>. Its first statement is
  \<^verbatim>\<open>command = ControlCommand(**data)\<close>, whose \<^verbatim>\<open>TypeError\<close> leaves the
  handler. The second component is the exception that leaves the handler, if
  any; the result is \<open>None\<close> while the handler is still in its waiting loop.
\<close>

definition command_callback_websocket ::
  "('v, 'c, 'w) surroundings \<Rightarrow> int \<Rightarrow> (bool \<times> int) list \<Rightarrow> string \<Rightarrow> 'c payload \<Rightarrow>
     ('v, 'w) websocket_module \<Rightarrow> (('v, 'w) websocket_module \<times> exn option) option" where
  "command_callback_websocket env t0 polls sid payload m =
     (case ControlCommand_of payload of
        Inl e \<Rightarrow> Some (m, Some e)
      | Inr command \<Rightarrow>
      if cmd_type command = SET_STATE then
        (let args = data command;
             h264 = (case args of None \<Rightarrow> False | Some a \<Rightarrow> (case arg_h264 a of None \<Rightarrow> False | Some b \<Rightarrow> b));
             config = (case args of None \<Rightarrow> [] | Some a \<Rightarrow> (case arg_config a of None \<Rightarrow> [] | Some c \<Rightarrow> c));
             camera_config = (case args of None \<Rightarrow> []
                              | Some a \<Rightarrow> (case arg_camera_config a of None \<Rightarrow> [] | Some c \<Rightarrow> c));
             fps = (case args of None \<Rightarrow> 30 | Some a \<Rightarrow> (case arg_fps a of None \<Rightarrow> 30 | Some f \<Rightarrow> f));
             width = (case args of None \<Rightarrow> 0 | Some a \<Rightarrow> (case arg_width a of None \<Rightarrow> 0 | Some x \<Rightarrow> x));
             height = (case args of None \<Rightarrow> 0 | Some a \<Rightarrow> (case arg_height a of None \<Rightarrow> 0 | Some x \<Rightarrow> x));
             image_queue = \<lparr>maxsize = NETAPP_INPUT_QUEUE env, queue = []\<rparr>;
             eio_sid = eio_sid_from_sid env sid Control_namespace;
             new_task =
               (if h264 then
                  \<lparr>th_sid = Some eio_sid, q = image_queue,
                   decoder = Some \<lparr>dec_fps = fps, dec_width = width, dec_height = height\<rparr>\<rparr>
                else \<lparr>th_sid = Some eio_sid, q = image_queue, decoder = None\<rparr>)
         in case new_worker env
                   \<lparr>wa_config = config, wa_camera_config = camera_config, wa_fps = fps,
                    wa_viz = None, wa_viz_zmq_port = None, wa_name = ''Detector '' @ eio_sid\<rparr> of
              Inl ex \<Rightarrow> Some (m, Some ex)
            | Inr new \<Rightarrow>
               (let m1 = m\<lparr>tasks_ws :=
                      AList.update eio_sid \<lparr>task = new_task, worker = new\<rparr> (tasks_ws m)\<rparr>;
                    m2 = m1\<lparr>tasks_ws :=
                      AList.update eio_sid \<lparr>task = new_task, worker = start env new\<rparr> (tasks_ws m1)\<rparr>
                in case wait_for_worker t0 polls of
                     None \<Rightarrow> None
                   | Some False \<Rightarrow> Some (m2, Some (ConnectionRefusedError ''Timed out to start worker.''))
                   | Some True \<Rightarrow> Some (m2, None)))
      else Some (m, None))"

text \<open>\<^verbatim>\<open>disconnect_data\<close>\<close>

definition disconnect_data ::
  "('v, 'c, 'w) surroundings \<Rightarrow> string \<Rightarrow> ('v, 'w) websocket_module \<Rightarrow> ('v, 'w) websocket_module" where
  "disconnect_data env sid m =
     (let eio_sid = eio_sid_from_sid env sid Data_namespace in
      case map_of (tasks_ws m) eio_sid of
        None \<Rightarrow> m
      | Some task_and_worker \<Rightarrow> m\<lparr>tasks_ws := AList.delete eio_sid (tasks_ws m)\<rparr>)"

text \<open>
  What the worker thread of a session does to the module's state: it takes the
  oldest item from the queue it shares with the task
  (\<^verbatim>\<open>self.image_queue.get\<close> in \<^verbatim>\<open>CollisionWorker.run\<close>).
\<close>

definition worker_get :: "string \<Rightarrow> ('v, 'w) websocket_module \<Rightarrow> ('v, 'w) websocket_module" where
  "worker_get eio_sid m =
     (case map_of (tasks_ws m) eio_sid of
        None \<Rightarrow> m
      | Some tw \<Rightarrow>
          m\<lparr>tasks_ws := AList.update eio_sid
               (tw\<lparr>task := (task tw)\<lparr>q := (q (task tw))\<lparr>queue := tl (queue (q (task tw)))\<rparr>\<rparr>\<rparr>)
               (tasks_ws m)\<rparr>)"

text \<open>
  What happens to the module, one event after the other: a handler is called with
  its arguments and runs to its end, or the worker of a session takes an item.
  Handlers run one at a time (\<^verbatim>\<open>async_handlers=False\<close>). The result is \<open>None\<close>
  when a command handler does not leave its waiting loop.
\<close>

datatype ('v, 'c) ws_event =
  Image_event int string "'v image_data"
  | Command_event int "(bool \<times> int) list" string "'c payload"
  | Disconnect_event string
  | Worker_event string

definition ws_handle ::
  "('v, 'c, 'w) surroundings \<Rightarrow> ('v, 'c) ws_event \<Rightarrow> ('v, 'w) websocket_module \<Rightarrow>
     ('v, 'w) websocket_module option" where
  "ws_handle env ev m =
     (case ev of
        Image_event now sid d \<Rightarrow> Some (fst (image_callback_websocket env now sid d m))
      | Command_event t0 polls sid payload \<Rightarrow>
          map_option fst (command_callback_websocket env t0 polls sid payload m)
      | Disconnect_event sid \<Rightarrow> Some (disconnect_data env sid m)
      | Worker_event eio_sid \<Rightarrow> Some (worker_get eio_sid m))"

fun ws_run ::
  "('v, 'c, 'w) surroundings \<Rightarrow> ('v, 'c) ws_event list \<Rightarrow> ('v, 'w) websocket_module \<Rightarrow>
     ('v, 'w) websocket_module option" where
  "ws_run env [] m = Some m"
| "ws_run env (ev # evs) m =
     (case ws_handle env ev m of None \<Rightarrow> None | Some m' \<Rightarrow> ws_run env evs m')"

text \<open>\<^verbatim>\<open>Queue.put(item, block=False)\<close> of the standard library.\<close>

definition put_nowait :: "'a \<Rightarrow> 'a Queue \<Rightarrow> exn + 'a Queue" where
  "put_nowait item qu =
     (if 0 < maxsize qu \<and> maxsize qu \<le> int (length (queue qu)) then Inl Full
      else Inr (qu\<lparr>queue := queue qu @ [item]\<rparr>))"

subsection \<open>Concrete scenarios\<close>

text \<open>
  A worker class for the scenarios: the name and the frame rate it was built
  with, whether \<^verbatim>\<open>start\<close> was called, and the latencies its
  \<^verbatim>\<open>LatencyMeasurements\<close> holds.
\<close>

record sample_worker =
  sw_name :: string
  sw_fps :: real
  sw_started :: bool
  sw_latencies :: "real list"

text \<open>\<^verbatim>\<open>store_image\<close> and \<^verbatim>\<open>store_data\<close> as a put that does not block.\<close>

definition store_nowait ::
  "'v TaskHandlerInternalQ \<Rightarrow> metadata \<Rightarrow> 'v \<Rightarrow> exn + 'v TaskHandlerInternalQ" where
  "store_nowait t md img =
     (case put_nowait (md, img) (q t) of Inl e \<Rightarrow> Inl e | Inr qu \<Rightarrow> Inr (t\<lparr>q := qu\<rparr>))"

text \<open>
  \<^verbatim>\<open>send_data\<close> as the server library has it: a third positional argument that
  is not a channel type raises \<^verbatim>\<open>UnknownChannelTypeUsed\<close>, and nothing is sent.
\<close>

definition library_send_data ::
  "'c message \<Rightarrow> event_name \<Rightarrow> positional \<Rightarrow> string option \<Rightarrow> exn option" where
  "library_send_data msg event channel_type sid =
     (case channel_type of
        A_channel_type ct \<Rightarrow> None
      | A_string s \<Rightarrow> Some UnknownChannelTypeUsed)"

text \<open>
  Surroundings in which a session has the same id in every namespace, the queue
  capacity is \<open>n\<close>, and workers and decoders never raise.
\<close>

definition sample_env :: "int \<Rightarrow> (nat, nat, sample_worker) surroundings" where
  "sample_env n =
     \<lparr>eio_sid_from_sid = (\<lambda>sid ns. sid),
      sid_from_eio_sid = (\<lambda>eio_sid ns. eio_sid),
      NETAPP_INPUT_QUEUE = n,
      send_data = library_send_data,
      new_worker = (\<lambda>a. Inr \<lparr>sw_name = wa_name a, sw_fps = wa_fps a, sw_started = False,
                             sw_latencies = []\<rparr>),
      start = (\<lambda>w. w\<lparr>sw_started := True\<rparr>),
      get_latencies = sw_latencies,
      store_image = store_nowait,
      store_data = store_nowait,
      decode_packet_data = (\<lambda>dec frame. Inr frame),
      b64_imdecode = (\<lambda>frame. Inr frame)\<rparr>"

text \<open>
  A registry entry with a started worker and a queue of capacity \<open>n\<close> that holds
  \<open>items\<close>.
\<close>

definition sample_entry ::
  "int \<Rightarrow> string option \<Rightarrow> string \<Rightarrow> (metadata \<times> nat) list \<Rightarrow> real list \<Rightarrow>
     (nat, sample_worker) TaskAndWorker" where
  "sample_entry n th nm items ls =
     \<lparr>task = \<lparr>th_sid = th, q = \<lparr>maxsize = n, queue = items\<rparr>, decoder = None\<rparr>,
      worker = \<lparr>sw_name = nm, sw_fps = 30, sw_started = True, sw_latencies = ls\<rparr>\<rparr>"

text \<open>
  A \<^verbatim>\<open>Server\<close> with the sessions \<open>S1\<close>, whose worker holds the latencies 10 and
  20, and \<open>S2\<close>, whose worker holds the latency 30.
\<close>

definition two_sessions :: "(nat, nat, sample_worker) Server" where
  "two_sessions =
     \<lparr>tasks = [(''S1'', sample_entry 1 None ''Collision Worker S1'' [] [10, 20]),
               (''S2'', sample_entry 1 None ''Collision Worker S2'' [] [30])],
      outbox = []\<rparr>"

definition sample_frame :: "int \<Rightarrow> nat image_data" where
  "sample_frame ts = \<lparr>d_timestamp = Some ts, d_frame = Some 0\<rparr>"

text \<open>The metadata that \<^verbatim>\<open>image_callback_websocket\<close> builds for session \<open>sid\<close>.\<close>

definition sample_metadata :: "string \<Rightarrow> int \<Rightarrow> int \<Rightarrow> metadata" where
  "sample_metadata sid ts recv =
     \<lparr>md_sid = Some sid, md_timestamp = Some ts, md_recv_timestamp = Some recv,
      md_websocket_id = Some sid, md_timestamp_before_process = None,
      md_timestamp_after_process = None\<rparr>"

text \<open>
  The payload of the command \<^verbatim>\<open>SET_STATE\<close> with the frame rate as its only
  argument.
\<close>

definition set_state_fps :: "real \<Rightarrow> nat payload" where
  "set_state_fps f =
     Fields \<lparr>cmd_type = SET_STATE,
       data = Some \<lparr>arg_h264 = None, arg_config = None, arg_camera_config = None,
                    arg_fps = Some f, arg_width = None, arg_height = None,
                    arg_viz = None, arg_viz_zmq_port = None\<rparr>\<rparr>"

text \<open>The metadata that \<^verbatim>\<open>Server.image_callback\<close> builds.\<close>

definition server_metadata :: "int \<Rightarrow> int \<Rightarrow> metadata" where
  "server_metadata ts recv =
     \<lparr>md_sid = None, md_timestamp = Some ts, md_recv_timestamp = Some recv,
      md_websocket_id = None, md_timestamp_before_process = None,
      md_timestamp_after_process = None\<rparr>"

text \<open>A \<^verbatim>\<open>Server\<close> with the session \<open>S1\<close>, whose queue of capacity 2 holds \<open>items\<close>.\<close>

definition server_with_frames :: "(metadata \<times> nat) list \<Rightarrow> (nat, nat, sample_worker) Server" where
  "server_with_frames items =
     \<lparr>tasks = [(''S1'', sample_entry 2 None ''Collision Worker S1'' items [])], outbox = []\<rparr>"

text \<open>
  The websocket module with the session \<open>A\<close>, initialised at 30 frames per second,
  whose queue holds \<open>items\<close>, after the timestamp \<open>ts\<close> was accepted.
\<close>

definition module_A :: "(metadata \<times> nat) list \<Rightarrow> int \<Rightarrow> (nat, sample_worker) websocket_module" where
  "module_A items ts =
     \<lparr>tasks_ws = [(''A'', sample_entry 1 (Some ''A'') ''Detector A'' items [])],
      last_timestamp = ts, emitted_ws = []\<rparr>"

text \<open>
  The websocket module with the sessions \<open>S1\<close>, whose queue holds \<open>items\<close>, and
  \<open>S2\<close>, after the timestamp \<open>ts\<close> was accepted.
\<close>

definition module_two :: "(metadata \<times> nat) list \<Rightarrow> int \<Rightarrow> (nat, sample_worker) websocket_module" where
  "module_two items ts =
     \<lparr>tasks_ws = [(''S1'', sample_entry 1 (Some ''S1'') ''Detector S1'' items []),
                  (''S2'', sample_entry 1 (Some ''S2'') ''Detector S2'' [] [])],
      last_timestamp = ts, emitted_ws = []\<rparr>"

text \<open>Three trackers, of which only the first passes the filter when \<open>min_hits\<close> is 3.\<close>

definition sample_trackers :: "KalmanBoxTracker list" where
  "sample_trackers =
     [\<lparr>tracker_id = 1, hit_streak = 5, time_since_update = 0, get_state = (1, 2, 3, 4)\<rparr>,
      \<lparr>tracker_id = 2, hit_streak = 3, time_since_update = 0, get_state = (5, 6, 7, 8)\<rparr>,
      \<lparr>tracker_id = 3, hit_streak = 9, time_since_update = 1, get_state = (0, 0, 1, 1)\<rparr>]"

text \<open>
  Collaborators for the scenarios: the tracker holds \<open>sample_trackers\<close> after every
  update, the object of tracker 1 is dangerous at distance 2, and \<^verbatim>\<open>detect\<close>
  raises on the image \<open>0\<close>.
\<close>

definition sample_collaborators :: "nat collaborators" where
  "sample_collaborators =
     \<lparr>detect = (\<lambda>d img. if img = 0 then Inl (Exception ''no image'') else Inr img),
      detections_to_numpy = (\<lambda>x. Inr x),
      update_tracker = (\<lambda>trk x. Inr (trk\<lparr>trackers := sample_trackers\<rparr>)),
      get_reference_points = (\<lambda>objs cam rectified. Inr 0),
      update_guard = (\<lambda>g ref. Inr g),
      dangerous_objects = (\<lambda>g. Inr [(1, 7)]),
      distance = (\<lambda>obj zone. Inr 2),
      sio_emit = (\<lambda>msg. None)\<rparr>"

definition sample_collision_worker :: "nat CollisionWorker" where
  "sample_collision_worker =
     \<lparr>name = ''Detector A'', stop_event = False, image_queue = [], sio = [], frame_id = 0,
      latency_measurements = [], detector = 0,
      tracker = \<lparr>trackers = [], min_hits = 3\<rparr>, guard = 0, camera = 0\<rparr>"

definition sample_pass :: "nat activity \<Rightarrow> nat pass" where
  "sample_pass a = \<lparr>others = a, clock_before = 10, clock_after = 20, clock_send = 30\<rparr>"

section \<open>Properties of the worker\<close>

subsection \<open>Dictionaries built by a comprehension\<close>

lemma fold_update_map_of:
  "map_of (fold (\<lambda>kv d. AList.update (fst kv) (snd kv) d) kvs acc) = map_of acc ++ map_of (rev kvs)"
proof (induction kvs arbitrary: acc)
  case Nil
  show ?case by simp
next
  case (Cons kv kvs)
  show ?case
    by (cases kv) (simp add: Cons.IH update_conv' map_add_upd_left fun_eq_iff map_add_def split: option.splits)
qed

lemma fold_update_keys:
  "fst ` set (fold (\<lambda>kv d. AList.update (fst kv) (snd kv) d) kvs acc) = fst ` set acc \<union> fst ` set kvs"
  by (induction kvs arbitrary: acc) (auto simp add: dom_update)

lemma fold_update_distinct:
  "distinct (map fst acc) \<Longrightarrow>
     distinct (map fst (fold (\<lambda>kv d. AList.update (fst kv) (snd kv) d) kvs acc))"
  by (induction kvs arbitrary: acc) (simp_all add: distinct_update)

lemma set_update_subset: "set (AList.update k v al) \<subseteq> insert (k, v) (set al)"
  by (induction al) auto

lemma fold_update_subset:
  "set (fold (\<lambda>kv d. AList.update (fst kv) (snd kv) d) kvs acc) \<subseteq> set acc \<union> set kvs"
proof (induction kvs arbitrary: acc)
  case Nil
  show ?case by simp
next
  case (Cons kv kvs)
  have "set (AList.update (fst kv) (snd kv) acc) \<subseteq> insert kv (set acc)"
    using set_update_subset [of "fst kv" "snd kv" acc] by simp
  with Cons.IH [of "AList.update (fst kv) (snd kv) acc"] show ?case
    by auto
qed

lemma dict_comprehension_distinct: "distinct (map fst (dict_comprehension kvs))"
  by (simp add: dict_comprehension_def fold_update_distinct)

lemma dict_comprehension_keys: "fst ` set (dict_comprehension kvs) = fst ` set kvs"
  by (simp add: dict_comprehension_def fold_update_keys)

lemma dict_comprehension_subset: "set (dict_comprehension kvs) \<subseteq> set kvs"
  using fold_update_subset [of kvs "[]"] by (simp add: dict_comprehension_def)

lemma dict_comprehension_set:
  assumes "distinct (map fst kvs)"
  shows "set (dict_comprehension kvs) = set kvs"
proof -
  have "map_of (dict_comprehension kvs) = map_of (rev kvs)"
    by (simp add: dict_comprehension_def fold_update_map_of)
  moreover have "distinct (map fst (rev kvs))"
    using assms by (simp add: rev_map [symmetric])
  ultimately have "set (dict_comprehension kvs) = set (rev kvs)"
    using dict_comprehension_distinct [of kvs] by (simp add: map_of_inject_set)
  then show ?thesis by simp
qed

lemma tracked_keys:
  "fst ` set (tracked_objects_of trk) = tracker_id ` {t \<in> set (trackers trk). reported trk t}"
  by (auto simp add: tracked_objects_of_def dict_comprehension_keys image_iff)

lemma tracked_values_subset:
  "snd ` set (tracked_objects_of trk) \<subseteq> {t \<in> set (trackers trk). reported trk t}"
  using dict_comprehension_subset
    [of "map (\<lambda>t. (tracker_id t, t)) (filter (reported trk) (trackers trk))"]
  by (auto simp add: tracked_objects_of_def)

lemma tracked_values:
  assumes "distinct (map tracker_id (trackers trk))"
  shows "snd ` set (tracked_objects_of trk) = {t \<in> set (trackers trk). reported trk t}"
proof -
  have "distinct (map fst (map (\<lambda>t. (tracker_id t, t)) (filter (reported trk) (trackers trk))))"
    using assms by (simp add: comp_def distinct_map_filter)
  then have "set (tracked_objects_of trk) =
      set (map (\<lambda>t. (tracker_id t, t)) (filter (reported trk) (trackers trk)))"
    unfolding tracked_objects_of_def by (rule dict_comprehension_set)
  then show ?thesis
    by (auto simp add: image_iff)
qed

lemma publish_detections_keys:
  "publish_detections env g dangerous xs acc = Inr ds \<Longrightarrow>
     fst ` set ds = fst ` set acc \<union> fst ` set xs"
proof (induction env g dangerous xs acc rule: publish_detections.induct)
  case (1 env g dangerous detections)
  then show ?case by simp
next
  case (2 env g dangerous tid t rest detections)
  then show ?case
    by (auto simp add: dom_update split: prod.splits option.splits sum.splits)
qed

subsection \<open>What the pipeline calls keep\<close>

lemma process_image_result:
  assumes "process_image env w img = (w', Inr tracked)"
  shows "tracked = tracked_objects_of (tracker w') \<and> sio w' = sio w \<and>
     (\<exists>ref. get_reference_points env tracked (camera w) True = Inr ref \<and>
            update_guard env (guard w) ref = Inr (guard w'))"
  using assms
  by (auto simp add: process_image_def Let_def split: sum.splits)

lemma process_image_sio: "sio (fst (process_image env w img)) = sio w"
  by (simp add: process_image_def Let_def split: sum.splits)

lemma publish_results_emitted:
  assumes "publish_results env ts w (Some tracked) md = (w', None)"
  shows "\<exists>msg. sio w' = sio w @ [msg] \<and> fst ` set (r_detections (em_data msg)) = fst ` set tracked"
  using assms
  by (auto simp add: publish_results_def Let_def dest!: publish_detections_keys
      split: sum.splits option.splits)

lemma publish_results_raised:
  assumes "publish_results env ts w tracked md = (w', Some e)"
  shows "w' = w"
  using assms
  by (auto simp add: publish_results_def Let_def split: sum.splits option.splits)


lemma process_image_keeps:
  "stop_event (fst (process_image env w img)) = stop_event w \<and>
   image_queue (fst (process_image env w img)) = image_queue w"
  by (simp add: process_image_def Let_def split: sum.splits)

lemma publish_results_keeps:
  "stop_event (fst (publish_results env ts w tracked md)) = stop_event w \<and>
   image_queue (fst (publish_results env ts w tracked md)) = image_queue w"
  by (simp add: publish_results_def Let_def split: sum.splits option.splits)

lemma act_stop_event: "stop_event (act a w) \<Longrightarrow> stop_event w \<or> a = Set_stop"
  by (cases a) (simp_all add: act_def)

lemma act_sio: "sio (act a w) = sio w"
  by (cases a) (simp_all add: act_def stop_def)

lemma loop_body_stop_event:
  assumes "stop_event (fst (loop_body env p w))"
  shows "stop_event w \<or> others p = Set_stop"
proof -
  have "stop_event (act (others p) w)"
  proof (cases "image_queue (act (others p) w)")
    case Nil
    with assms show ?thesis by (simp add: loop_body_def Let_def)
  next
    case (Cons item rest)
    obtain md img where item: "item = (md, img)" by (cases item)
    let ?w1 = "(act (others p) w)\<lparr>image_queue := rest, frame_id := frame_id (act (others p) w) + 1\<rparr>"
    obtain w2 r where pi: "process_image env ?w1 img = (w2, r)" by (cases "process_image env ?w1 img")
    have w2: "stop_event w2 = stop_event (act (others p) w)"
      using process_image_keeps [of env ?w1 img] pi by simp
    show ?thesis
    proof (cases r)
      case (Inl e)
      with assms Cons item pi w2 show ?thesis by (simp add: loop_body_def Let_def)
    next
      case (Inr tracked)
      with assms Cons item pi w2 show ?thesis
        by (simp add: loop_body_def Let_def publish_results_keeps)
    qed
  qed
  then show ?thesis by (rule act_stop_event)
qed

lemma run_exited:
  "fst (run env qs w) = Exited \<Longrightarrow> stop_event w \<or> (\<exists>x. x \<in> set qs \<and> others x = Set_stop)"
proof (induction qs arbitrary: w)
  case Nil
  then show ?case by simp
next
  case (Cons p ps)
  show ?case
  proof (cases "stop_event w")
    case True
    then show ?thesis by simp
  next
    case False
    with Cons.prems have "fst (run env ps (fst (loop_body env p w))) = Exited" by simp
    from Cons.IH [OF this] loop_body_stop_event [of env p w] show ?thesis by auto
  qed
qed

subsection \<open>Stopping\<close>

text \<open>
  C9. Stopping is idempotent: any number of calls of \<open>stop\<close>, at least one, leaves
  the worker as one call does, the stop flag is set afterwards, and the loop of
  \<open>run\<close> ends at its next test of the flag, without another pass.
\<close>

theorem stop_idempotent:
  "(stop ^^ Suc n) w = stop w \<and> stop_event (stop w) \<and>
   run env (p # ps) (stop w) = (Exited, stop w)"
proof -
  have twice: "stop (stop v) = stop v" for v :: "'a CollisionWorker"
    by (simp add: stop_def)
  have "(stop ^^ Suc n) w = stop w"
    by (induction n) (simp_all add: twice)
  then show ?thesis
    by (simp add: stop_def)
qed

text \<open>Three calls of \<open>stop\<close> on the sample worker, and the loop that then ends.\<close>

theorem stop_idempotent_witness:
  "(stop ^^ 3) sample_collision_worker = stop sample_collision_worker \<and>
   stop_event (stop sample_collision_worker) \<and>
   run sample_collaborators [sample_pass Idle] (stop sample_collision_worker) =
     (Exited, stop sample_collision_worker)"
  using stop_idempotent [where n = 2 and w = sample_collision_worker and env = sample_collaborators
      and p = "sample_pass Idle" and ps = "[]"]
  by (simp add: numeral_3_eq_3)


subsection \<open>The trackers that are reported\<close>

lemma update_append: "k \<notin> fst ` set al \<Longrightarrow> AList.update k v al = al @ [(k, v)]"
  by (induction al) auto

lemma publish_detections_result:
  "publish_detections env g dangerous xs acc = Inr ds \<Longrightarrow> distinct (map fst xs) \<Longrightarrow>
   fst ` set xs \<inter> fst ` set acc = {} \<Longrightarrow>
   ds = acc @ map (\<lambda>kv. (fst kv,
            \<lparr>bbox = (case get_state (snd kv) of (x1, y1, x2, y2) \<Rightarrow> [x1, y1, x2, y2]),
             dangerous_distance =
               (case map_of dangerous (fst kv) of None \<Rightarrow> 0
                | Some obj \<Rightarrow> projr (distance env obj g))\<rparr>)) xs"
proof (induction xs arbitrary: acc ds)
  case Nil
  then show ?case by simp
next
  case (Cons kv xs)
  obtain tid t where kv: "kv = (tid, t)" by (cases kv)
  obtain x1 y1 x2 y2 where gs: "get_state t = (x1, y1, x2, y2)"
    by (metis prod_cases4)
  from Cons.prems kv have fresh: "tid \<notin> fst ` set acc" and later: "tid \<notin> fst ` set xs"
    and dist: "distinct (map fst xs)" and apart: "fst ` set xs \<inter> fst ` set acc = {}"
    by auto
  have upd: "AList.update tid v acc = acc @ [(tid, v)]" for v
    using fresh by (rule update_append)
  have apart': "fst ` set xs \<inter> fst ` set (acc @ [(tid, v)]) = {}" for v :: detection
    using apart later by auto
  show ?case
  proof (cases "map_of dangerous tid")
    case None
    with Cons.prems(1) kv gs upd
    have "publish_detections env g dangerous xs
            (acc @ [(tid, \<lparr>bbox = [x1, y1, x2, y2], dangerous_distance = 0\<rparr>)]) = Inr ds"
      by simp
    from Cons.IH [OF this dist apart'] kv gs None show ?thesis
      by simp
  next
    case (Some obj)
    show ?thesis
    proof (cases "distance env obj g")
      case (Inl e)
      with Cons.prems(1) kv gs Some show ?thesis by simp
    next
      case (Inr d)
      with Cons.prems(1) kv gs upd Some
      have "publish_detections env g dangerous xs
              (acc @ [(tid, \<lparr>bbox = [x1, y1, x2, y2], dangerous_distance = d\<rparr>)]) = Inr ds"
        by simp
      from Cons.IH [OF this dist apart'] kv gs Some Inr show ?thesis
        by simp
    qed
  qed
qed

lemma publish_results_sent:
  assumes "publish_results env ts w (Some tracked) md = (w', None)"
    and "distinct (map fst tracked)"
  shows "\<exists>dangerous msg. dangerous_objects env (guard w) = Inr dangerous \<and>
     w' = w\<lparr>sio := sio w @ [msg]\<rparr> \<and>
     em_event msg = ''message'' \<and> em_namespace msg = ''/results'' \<and>
     md_websocket_id md = Some (em_to msg) \<and>
     md_timestamp md = Some (r_timestamp (em_data msg)) \<and>
     md_recv_timestamp md = Some (r_recv_timestamp (em_data msg)) \<and>
     md_timestamp_before_process md = Some (r_timestamp_before_process (em_data msg)) \<and>
     md_timestamp_after_process md = Some (r_timestamp_after_process (em_data msg)) \<and>
     r_send_timestamp (em_data msg) = ts \<and>
     r_detections (em_data msg) =
       map (\<lambda>kv. (fst kv,
            \<lparr>bbox = (case get_state (snd kv) of (x1, y1, x2, y2) \<Rightarrow> [x1, y1, x2, y2]),
             dangerous_distance =
               (case map_of dangerous (fst kv) of None \<Rightarrow> 0
                | Some obj \<Rightarrow> projr (distance env obj (guard w)))\<rparr>)) tracked"
proof -
  from assms(1) obtain dangerous where dang: "dangerous_objects env (guard w) = Inr dangerous"
    by (auto simp add: publish_results_def split: sum.splits)
  from assms(1) dang obtain ds where pd: "publish_detections env (guard w) dangerous tracked [] = Inr ds"
    by (auto simp add: publish_results_def split: sum.splits)
  from publish_detections_result [OF pd assms(2)]
  have ds: "ds = map (\<lambda>kv. (fst kv,
            \<lparr>bbox = (case get_state (snd kv) of (x1, y1, x2, y2) \<Rightarrow> [x1, y1, x2, y2]),
             dangerous_distance =
               (case map_of dangerous (fst kv) of None \<Rightarrow> 0
                | Some obj \<Rightarrow> projr (distance env obj (guard w)))\<rparr>)) tracked"
    by simp
  from assms(1) dang pd obtain t1 t2 t3 t4 ws
    where md: "md_timestamp md = Some t1" "md_recv_timestamp md = Some t2"
      "md_timestamp_before_process md = Some t3" "md_timestamp_after_process md = Some t4"
      "md_websocket_id md = Some ws"
    and w': "w' = w\<lparr>sio := sio w @
        [\<lparr>em_event = ''message'',
          em_data = \<lparr>r_timestamp = t1, r_recv_timestamp = t2,
                     r_timestamp_before_process = t3, r_timestamp_after_process = t4,
                     r_send_timestamp = ts, r_detections = ds\<rparr>,
          em_namespace = ''/results'', em_to = ws\<rparr>]\<rparr>"
    by (auto simp add: publish_results_def metadata_get_def Let_def split: option.splits)
  show ?thesis
    using dang md w' ds
    by (intro exI [of _ dangerous]
        exI [of _ "\<lparr>em_event = ''message'',
          em_data = \<lparr>r_timestamp = t1, r_recv_timestamp = t2,
                     r_timestamp_before_process = t3, r_timestamp_after_process = t4,
                     r_send_timestamp = ts, r_detections = ds\<rparr>,
          em_namespace = ''/results'', em_to = ws\<rparr>"]) simp
qed

lemma act_keeps:
  "tracker (act a w) = tracker w \<and> guard (act a w) = guard w \<and> camera (act a w) = camera w \<and>
   detector (act a w) = detector w"
  by (cases a) (simp_all add: act_def stop_def)

lemma process_image_steps:
  assumes "process_image env w img = (w', Inr tracked)"
  shows "\<exists>dets dets_np. detect env (detector w) img = Inr dets \<and>
     detections_to_numpy env dets = Inr dets_np \<and>
     update_tracker env (tracker w) dets_np = Inr (tracker w')"
  using assms
  by (auto simp add: process_image_def Let_def split: sum.splits)

text \<open>
  When \<open>process_image\<close> returns, the dictionary it returns is the one built from
  the trackers that pass the filter, and the guard was updated with the
  reference points of this dictionary.
\<close>

lemma process_image_reports_filtered:
  assumes "process_image env w img = (w', Inr tracked)"
  shows "tracked = tracked_objects_of (tracker w') \<and>
     (\<exists>ref. get_reference_points env tracked (camera w) True = Inr ref \<and>
            update_guard env (guard w) ref = Inr (guard w')) \<and>
     fst ` set tracked = tracker_id ` {t \<in> set (trackers (tracker w')). reported (tracker w') t} \<and>
     snd ` set tracked \<subseteq> {t \<in> set (trackers (tracker w')). reported (tracker w') t} \<and>
     (distinct (map tracker_id (trackers (tracker w'))) \<longrightarrow>
        snd ` set tracked = {t \<in> set (trackers (tracker w')). reported (tracker w') t})"
proof -
  from process_image_result [OF assms]
  have eq: "tracked = tracked_objects_of (tracker w')"
    and downstream: "\<exists>ref. get_reference_points env tracked (camera w) True = Inr ref \<and>
            update_guard env (guard w) ref = Inr (guard w')"
    by blast+
  have keys: "fst ` set tracked =
      tracker_id ` {t \<in> set (trackers (tracker w')). reported (tracker w') t}"
    unfolding eq by (rule tracked_keys)
  have sub: "snd ` set tracked \<subseteq> {t \<in> set (trackers (tracker w')). reported (tracker w') t}"
    unfolding eq by (rule tracked_values_subset)
  have exact: "distinct (map tracker_id (trackers (tracker w'))) \<longrightarrow>
        snd ` set tracked = {t \<in> set (trackers (tracker w')). reported (tracker w') t}"
    unfolding eq by (simp add: tracked_values)
  from eq downstream keys sub exact show ?thesis
    by blast
qed

text \<open>
  C7. A pass of the worker that takes a frame from the queue and ends without an
  exception has updated the tracker with the detections of the frame and has
  built the dictionary of the trackers \<open>t\<close> of the updated tracker with
  \<open>hit_streak t > min_hits\<close> and \<open>time_since_update t < 1\<close>. The reference points
  of this dictionary were given to the guard, and the pass has emitted exactly
  one message: its detections are, in the order of the dictionary, one for each
  entry, with the id, the box of that tracker, and the distance of the dangerous
  object of that id or 0. So the ids in the emitted result are the ids of
  exactly the trackers that pass the filter, every tracker in the dictionary is
  one of them, and when the ids of the trackers are distinct (the dictionary is
  keyed by id) the trackers in the dictionary are exactly these.
\<close>

theorem pass_reports_filtered_trackers:
  assumes "image_queue (act (others p) w) = (md, img) # rest"
    and "snd (loop_body env p w) = None"
  shows "\<exists>dets dets_np ref dangerous msg.
     detect env (detector w) img = Inr dets \<and>
     detections_to_numpy env dets = Inr dets_np \<and>
     update_tracker env (tracker w) dets_np = Inr (tracker (fst (loop_body env p w))) \<and>
     get_reference_points env (tracked_objects_of (tracker (fst (loop_body env p w))))
       (camera w) True = Inr ref \<and>
     update_guard env (guard w) ref = Inr (guard (fst (loop_body env p w))) \<and>
     dangerous_objects env (guard (fst (loop_body env p w))) = Inr dangerous \<and>
     sio (fst (loop_body env p w)) = sio w @ [msg] \<and>
     em_event msg = ''message'' \<and> em_namespace msg = ''/results'' \<and>
     md_websocket_id md = Some (em_to msg) \<and>
     md_timestamp md = Some (r_timestamp (em_data msg)) \<and>
     r_detections (em_data msg) =
       map (\<lambda>kv. (fst kv,
            \<lparr>bbox = (case get_state (snd kv) of (x1, y1, x2, y2) \<Rightarrow> [x1, y1, x2, y2]),
             dangerous_distance =
               (case map_of dangerous (fst kv) of None \<Rightarrow> 0
                | Some obj \<Rightarrow> projr (distance env obj (guard (fst (loop_body env p w)))))\<rparr>))
         (tracked_objects_of (tracker (fst (loop_body env p w)))) \<and>
     fst ` set (r_detections (em_data msg)) =
       tracker_id ` {t \<in> set (trackers (tracker (fst (loop_body env p w)))).
                      reported (tracker (fst (loop_body env p w))) t} \<and>
     snd ` set (tracked_objects_of (tracker (fst (loop_body env p w)))) \<subseteq>
       {t \<in> set (trackers (tracker (fst (loop_body env p w)))).
          reported (tracker (fst (loop_body env p w))) t} \<and>
     (distinct (map tracker_id (trackers (tracker (fst (loop_body env p w))))) \<longrightarrow>
        snd ` set (tracked_objects_of (tracker (fst (loop_body env p w)))) =
          {t \<in> set (trackers (tracker (fst (loop_body env p w)))).
             reported (tracker (fst (loop_body env p w))) t})"
proof -
  let ?w0 = "act (others p) w"
  let ?w1 = "?w0\<lparr>image_queue := rest, frame_id := frame_id ?w0 + 1\<rparr>"
  let ?md2 = "md\<lparr>md_timestamp_before_process := Some (clock_before p),
                 md_timestamp_after_process := Some (clock_after p)\<rparr>"
  obtain w2 r where pi: "process_image env ?w1 img = (w2, r)"
    by (cases "process_image env ?w1 img")
  have body: "loop_body env p w =
      (case r of Inl e \<Rightarrow> (w2, Some e)
       | Inr tracked \<Rightarrow> publish_results env (clock_send p) w2 (Some tracked) ?md2)"
    using assms(1) pi by (simp add: loop_body_def Let_def split: sum.splits)
  from body assms(2) obtain tracked where r: "r = Inr tracked"
    by (cases r) simp_all
  obtain w3 where pr: "publish_results env (clock_send p) w2 (Some tracked) ?md2 = (w3, None)"
    and w3: "fst (loop_body env p w) = w3"
    using body assms(2) r by (cases "publish_results env (clock_send p) w2 (Some tracked) ?md2") simp
  from pi r have pi': "process_image env ?w1 img = (w2, Inr tracked)" by simp
  from process_image_steps [OF pi'] act_keeps [of "others p" w]
  obtain dets dets_np where steps: "detect env (detector w) img = Inr dets"
      "detections_to_numpy env dets = Inr dets_np"
      "update_tracker env (tracker w) dets_np = Inr (tracker w2)"
    by auto
  note filtered = process_image_reports_filtered [OF pi']
  have eq: "tracked = tracked_objects_of (tracker w2)"
    using filtered by (rule conjunct1)
  have keys: "fst ` set tracked =
      tracker_id ` {t \<in> set (trackers (tracker w2)). reported (tracker w2) t}"
    using filtered [THEN conjunct2, THEN conjunct2] by (rule conjunct1)
  have sub: "snd ` set tracked \<subseteq> {t \<in> set (trackers (tracker w2)). reported (tracker w2) t}"
    using filtered [THEN conjunct2, THEN conjunct2, THEN conjunct2] by (rule conjunct1)
  have exact: "distinct (map tracker_id (trackers (tracker w2))) \<longrightarrow>
        snd ` set tracked = {t \<in> set (trackers (tracker w2)). reported (tracker w2) t}"
    using filtered [THEN conjunct2, THEN conjunct2, THEN conjunct2] by (rule conjunct2)
  from filtered [THEN conjunct2, THEN conjunct1] act_keeps [of "others p" w]
  obtain ref where ref: "get_reference_points env tracked (camera w) True = Inr ref"
      "update_guard env (guard w) ref = Inr (guard w2)"
    by auto
  have "distinct (map fst tracked)"
    unfolding eq tracked_objects_of_def by (rule dict_comprehension_distinct)
  from publish_results_sent [OF pr this]
  obtain dangerous msg where sent: "dangerous_objects env (guard w2) = Inr dangerous"
      "w3 = w2\<lparr>sio := sio w2 @ [msg]\<rparr>"
      "em_event msg = ''message''" "em_namespace msg = ''/results''"
      "md_websocket_id ?md2 = Some (em_to msg)"
      "md_timestamp ?md2 = Some (r_timestamp (em_data msg))"
      "r_detections (em_data msg) =
         map (\<lambda>kv. (fst kv,
            \<lparr>bbox = (case get_state (snd kv) of (x1, y1, x2, y2) \<Rightarrow> [x1, y1, x2, y2]),
             dangerous_distance =
               (case map_of dangerous (fst kv) of None \<Rightarrow> 0
                | Some obj \<Rightarrow> projr (distance env obj (guard w2)))\<rparr>)) tracked"
    by blast
  have sio2: "sio w2 = sio w"
    using process_image_sio [of env ?w1 img] pi by (simp add: act_sio)
  have same: "tracker w3 = tracker w2" "guard w3 = guard w2" "sio w3 = sio w @ [msg]"
    using sent(2) sio2 by simp_all
  have ids: "fst ` set (r_detections (em_data msg)) = fst ` set tracked"
    unfolding sent(7) by (simp add: image_image)
  show ?thesis
    unfolding w3 same
    using steps ref sent(1,3,4,5,6,7) eq keys sub exact ids
    by (intro exI [of _ dets] exI [of _ dets_np] exI [of _ ref] exI [of _ dangerous] exI [of _ msg])
      simp
qed

text \<open>
  The sample worker takes the frame \<open>1\<close>. Its tracker holds three trackers after
  the update; only tracker 1 has a hit streak above 3 and was updated in this
  frame, and the message that the pass emits has a detection for it alone.
\<close>

lemma sample_tracked:
  "tracked_objects_of \<lparr>trackers = sample_trackers, min_hits = 3\<rparr> =
     [(1, \<lparr>tracker_id = 1, hit_streak = 5, time_since_update = 0, get_state = (1, 2, 3, 4)\<rparr>)]"
  by (simp add: tracked_objects_of_def reported_def sample_trackers_def dict_comprehension_def)

lemma sample_process_image:
  assumes "tracker w = \<lparr>trackers = [], min_hits = 3\<rparr>"
  shows "process_image sample_collaborators w 1 =
     (w\<lparr>tracker := \<lparr>trackers = sample_trackers, min_hits = 3\<rparr>\<rparr>,
      Inr [(1, \<lparr>tracker_id = 1, hit_streak = 5, time_since_update = 0, get_state = (1, 2, 3, 4)\<rparr>)])"
  using assms
  by (simp add: process_image_def sample_collaborators_def Let_def sample_tracked)

lemma sample_publish_results:
  "publish_results sample_collaborators 30 w
      (Some [(1, \<lparr>tracker_id = 1, hit_streak = 5, time_since_update = 0, get_state = (1, 2, 3, 4)\<rparr>)])
      ((sample_metadata ''A'' 100 7)
         \<lparr>md_timestamp_before_process := Some 10, md_timestamp_after_process := Some 20\<rparr>) =
     (w\<lparr>sio := sio w @
         [\<lparr>em_event = ''message'',
           em_data = \<lparr>r_timestamp = 100, r_recv_timestamp = 7,
                      r_timestamp_before_process = 10, r_timestamp_after_process = 20,
                      r_send_timestamp = 30,
                      r_detections = [(1, \<lparr>bbox = [1, 2, 3, 4], dangerous_distance = 2\<rparr>)]\<rparr>,
           em_namespace = ''/results'', em_to = ''A''\<rparr>]\<rparr>,
      None)"
  by (simp add: publish_results_def metadata_get_def sample_collaborators_def sample_metadata_def)

lemma sample_pass_emits:
  "loop_body sample_collaborators (sample_pass (Put (sample_metadata ''A'' 100 7, 1)))
       sample_collision_worker =
     (sample_collision_worker
        \<lparr>sio := [\<lparr>em_event = ''message'',
                  em_data = \<lparr>r_timestamp = 100, r_recv_timestamp = 7,
                             r_timestamp_before_process = 10, r_timestamp_after_process = 20,
                             r_send_timestamp = 30,
                             r_detections = [(1, \<lparr>bbox = [1, 2, 3, 4], dangerous_distance = 2\<rparr>)]\<rparr>,
                  em_namespace = ''/results'', em_to = ''A''\<rparr>],
         frame_id := 1,
         tracker := \<lparr>trackers = sample_trackers, min_hits = 3\<rparr>\<rparr>,
      None)"
proof -
  let ?w1 = "sample_collision_worker\<lparr>image_queue := [], frame_id := 1\<rparr>"
  have queue: "image_queue (act (others (sample_pass (Put (sample_metadata ''A'' 100 7, 1))))
      sample_collision_worker) = [(sample_metadata ''A'' 100 7, 1)]"
    by (simp add: sample_pass_def act_def sample_collision_worker_def)
  have w1: "(act (others (sample_pass (Put (sample_metadata ''A'' 100 7, 1))))
        sample_collision_worker)
      \<lparr>image_queue := [],
       frame_id := frame_id (act (others (sample_pass (Put (sample_metadata ''A'' 100 7, 1))))
         sample_collision_worker) + 1\<rparr> = ?w1"
    by (simp add: sample_pass_def act_def sample_collision_worker_def)
  have trk: "tracker ?w1 = \<lparr>trackers = [], min_hits = 3\<rparr>"
    by (simp add: sample_collision_worker_def)
  have clocks: "clock_before (sample_pass a) = 10" "clock_after (sample_pass a) = 20"
      "clock_send (sample_pass a) = 30" for a :: "nat activity"
    by (simp_all add: sample_pass_def)
  have "loop_body sample_collaborators (sample_pass (Put (sample_metadata ''A'' 100 7, 1)))
       sample_collision_worker =
     publish_results sample_collaborators 30
       (?w1\<lparr>tracker := \<lparr>trackers = sample_trackers, min_hits = 3\<rparr>\<rparr>)
       (Some [(1, \<lparr>tracker_id = 1, hit_streak = 5, time_since_update = 0, get_state = (1, 2, 3, 4)\<rparr>)])
       ((sample_metadata ''A'' 100 7)
         \<lparr>md_timestamp_before_process := Some 10, md_timestamp_after_process := Some 20\<rparr>)"
    unfolding loop_body_def Let_def queue list.case prod.case w1
      sample_process_image [OF trk] sum.case clocks
    by (rule refl)
  also have "\<dots> = (sample_collision_worker
        \<lparr>sio := [\<lparr>em_event = ''message'',
                  em_data = \<lparr>r_timestamp = 100, r_recv_timestamp = 7,
                             r_timestamp_before_process = 10, r_timestamp_after_process = 20,
                             r_send_timestamp = 30,
                             r_detections = [(1, \<lparr>bbox = [1, 2, 3, 4], dangerous_distance = 2\<rparr>)]\<rparr>,
                  em_namespace = ''/results'', em_to = ''A''\<rparr>],
         frame_id := 1,
         tracker := \<lparr>trackers = sample_trackers, min_hits = 3\<rparr>\<rparr>,
      None)"
    unfolding sample_publish_results
    by (simp add: sample_collision_worker_def)
  finally show ?thesis .
qed

theorem pass_reports_filtered_trackers_witness:
  "image_queue (act (others (sample_pass (Put (sample_metadata ''A'' 100 7, 1))))
      sample_collision_worker) = [(sample_metadata ''A'' 100 7, 1)] \<and>
   loop_body sample_collaborators (sample_pass (Put (sample_metadata ''A'' 100 7, 1)))
       sample_collision_worker =
     (sample_collision_worker
        \<lparr>sio := [\<lparr>em_event = ''message'',
                  em_data = \<lparr>r_timestamp = 100, r_recv_timestamp = 7,
                             r_timestamp_before_process = 10, r_timestamp_after_process = 20,
                             r_send_timestamp = 30,
                             r_detections = [(1, \<lparr>bbox = [1, 2, 3, 4], dangerous_distance = 2\<rparr>)]\<rparr>,
                  em_namespace = ''/results'', em_to = ''A''\<rparr>],
         frame_id := 1,
         tracker := \<lparr>trackers = sample_trackers, min_hits = 3\<rparr>\<rparr>,
      None) \<and>
   tracker_id ` {t. t \<in> set sample_trackers \<and>
                    reported \<lparr>trackers = sample_trackers, min_hits = 3\<rparr> t} = {1}"
proof -
  have q: "image_queue (act (others (sample_pass (Put (sample_metadata ''A'' 100 7, 1))))
      sample_collision_worker) = (sample_metadata ''A'' 100 7, 1) # []"
    by (simp add: sample_pass_def act_def sample_collision_worker_def)
  have ended: "snd (loop_body sample_collaborators
      (sample_pass (Put (sample_metadata ''A'' 100 7, 1))) sample_collision_worker) = None"
    by (simp only: sample_pass_emits snd_conv)
  from pass_reports_filtered_trackers [OF q ended]
  obtain msg where a: "sio (fst (loop_body sample_collaborators
        (sample_pass (Put (sample_metadata ''A'' 100 7, 1))) sample_collision_worker)) =
      sio sample_collision_worker @ [msg]"
    and b: "fst ` set (r_detections (em_data msg)) =
      tracker_id ` {t \<in> set (trackers (tracker (fst (loop_body sample_collaborators
          (sample_pass (Put (sample_metadata ''A'' 100 7, 1))) sample_collision_worker)))).
        reported (tracker (fst (loop_body sample_collaborators
          (sample_pass (Put (sample_metadata ''A'' 100 7, 1))) sample_collision_worker))) t}"
    by (elim exE conjE) (rule that, assumption, assumption)
  have m: "msg = \<lparr>em_event = ''message'',
                  em_data = \<lparr>r_timestamp = 100, r_recv_timestamp = 7,
                             r_timestamp_before_process = 10, r_timestamp_after_process = 20,
                             r_send_timestamp = 30,
                             r_detections = [(1, \<lparr>bbox = [1, 2, 3, 4], dangerous_distance = 2\<rparr>)]\<rparr>,
                  em_namespace = ''/results'', em_to = ''A''\<rparr>"
    using a [unfolded sample_pass_emits] by (simp add: sample_collision_worker_def)
  have "tracker_id ` {t. t \<in> set sample_trackers \<and>
                    reported \<lparr>trackers = sample_trackers, min_hits = 3\<rparr> t} =
      fst ` set (r_detections (em_data msg))"
    using b [unfolded sample_pass_emits] by (simp add: sample_collision_worker_def)
  also have "\<dots> = {1}"
    unfolding m by simp
  finally have "tracker_id ` {t. t \<in> set sample_trackers \<and>
                    reported \<lparr>trackers = sample_trackers, min_hits = 3\<rparr> t} = {1}" .
  with q sample_pass_emits show ?thesis
    by simp
qed

subsection \<open>Exceptions inside a pass\<close>

text \<open>
  C8. In a pass that takes a frame from the queue, an exception raised by
  \<open>process_image\<close>, or by \<open>publish_results\<close> after it, is caught and logged in
  the pass, nothing is emitted for the frame, and the frame is gone from the
  queue. Unless the stop flag was set before the pass, \<open>run\<close> goes on with the
  next pass; and whenever \<open>run\<close> has exited, the stop flag was set at the start or
  \<open>stop\<close> was called during one of the passes.
\<close>

theorem exception_in_pass_is_caught:
  assumes "image_queue (act (others p) w) = (md, img) # rest"
  shows "(\<forall>e. snd (process_image env
                  ((act (others p) w)\<lparr>image_queue := rest, frame_id := frame_id (act (others p) w) + 1\<rparr>)
                  img) = Inl e \<longrightarrow>
            snd (loop_body env p w) = Some e \<and> sio (fst (loop_body env p w)) = sio w) \<and>
     (\<forall>w2 tracked e.
        process_image env
          ((act (others p) w)\<lparr>image_queue := rest, frame_id := frame_id (act (others p) w) + 1\<rparr>)
          img = (w2, Inr tracked) \<and>
        snd (publish_results env (clock_send p) w2 (Some tracked)
               (md\<lparr>md_timestamp_before_process := Some (clock_before p),
                   md_timestamp_after_process := Some (clock_after p)\<rparr>)) = Some e \<longrightarrow>
            snd (loop_body env p w) = Some e \<and> sio (fst (loop_body env p w)) = sio w) \<and>
     image_queue (fst (loop_body env p w)) = rest \<and>
     (\<not> stop_event w \<longrightarrow> run env (p # ps) w = run env ps (fst (loop_body env p w))) \<and>
     (fst (run env qs w) = Exited \<longrightarrow> stop_event w \<or> (\<exists>x. x \<in> set qs \<and> others x = Set_stop))"
proof -
  let ?w1 = "(act (others p) w)\<lparr>image_queue := rest, frame_id := frame_id (act (others p) w) + 1\<rparr>"
  let ?md2 = "md\<lparr>md_timestamp_before_process := Some (clock_before p),
                 md_timestamp_after_process := Some (clock_after p)\<rparr>"
  obtain w2 r where pi: "process_image env ?w1 img = (w2, r)"
    by (cases "process_image env ?w1 img")
  have w2: "sio w2 = sio w" "image_queue w2 = rest"
    using process_image_sio [of env ?w1 img] process_image_keeps [of env ?w1 img] pi
    by (simp_all add: act_sio)
  have body: "loop_body env p w =
      (case r of Inl e \<Rightarrow> (w2, Some e)
       | Inr tracked \<Rightarrow> publish_results env (clock_send p) w2 (Some tracked) ?md2)"
    using assms pi by (simp add: loop_body_def Let_def split: sum.splits)
  have first: "\<forall>e. snd (process_image env ?w1 img) = Inl e \<longrightarrow>
      snd (loop_body env p w) = Some e \<and> sio (fst (loop_body env p w)) = sio w"
    using pi body w2 by simp
  have second: "\<forall>w2' tracked e. process_image env ?w1 img = (w2', Inr tracked) \<and>
      snd (publish_results env (clock_send p) w2' (Some tracked) ?md2) = Some e \<longrightarrow>
      snd (loop_body env p w) = Some e \<and> sio (fst (loop_body env p w)) = sio w"
  proof (intro allI impI, elim conjE)
    fix w2' tracked e
    assume a: "process_image env ?w1 img = (w2', Inr tracked)"
      and b: "snd (publish_results env (clock_send p) w2' (Some tracked) ?md2) = Some e"
    from a pi have eq: "w2' = w2" "r = Inr tracked" by simp_all
    obtain w3 where "publish_results env (clock_send p) w2 (Some tracked) ?md2 = (w3, Some e)"
      using b eq by (cases "publish_results env (clock_send p) w2 (Some tracked) ?md2") simp
    moreover from this have "w3 = w2" by (rule publish_results_raised)
    ultimately show "snd (loop_body env p w) = Some e \<and> sio (fst (loop_body env p w)) = sio w"
      using body eq w2 by simp
  qed
  have third: "image_queue (fst (loop_body env p w)) = rest"
    using body w2 by (cases r) (simp_all add: publish_results_keeps)
  have fourth: "\<not> stop_event w \<longrightarrow> run env (p # ps) w = run env ps (fst (loop_body env p w))"
    by simp
  have fifth: "fst (run env qs w) = Exited \<longrightarrow>
      stop_event w \<or> (\<exists>x. x \<in> set qs \<and> others x = Set_stop)"
    using run_exited by blast
  from first second third fourth fifth show ?thesis
    by blast
qed

text \<open>
  The detector raises on the first frame: the pass logs the exception, emits
  nothing, and \<open>run\<close> goes on with the second frame.
\<close>

lemma sample_pass_raises:
  "loop_body sample_collaborators (sample_pass (Put (sample_metadata ''A'' 100 7, 0)))
       sample_collision_worker =
     (sample_collision_worker\<lparr>frame_id := 1\<rparr>, Some (Exception ''no image''))"
  by (simp add: loop_body_def sample_pass_def act_def sample_collision_worker_def
      process_image_def sample_collaborators_def Let_def)

theorem exception_in_pass_is_caught_witness:
  "image_queue (act (others (sample_pass (Put (sample_metadata ''A'' 100 7, 0)))) sample_collision_worker) =
      [(sample_metadata ''A'' 100 7, 0)] \<and>
   loop_body sample_collaborators (sample_pass (Put (sample_metadata ''A'' 100 7, 0)))
       sample_collision_worker =
     (sample_collision_worker\<lparr>frame_id := 1\<rparr>, Some (Exception ''no image'')) \<and>
   sio (sample_collision_worker\<lparr>frame_id := 1\<rparr>) = sio sample_collision_worker \<and>
   run sample_collaborators
       [sample_pass (Put (sample_metadata ''A'' 100 7, 0)), sample_pass (Put (sample_metadata ''A'' 101 8, 1))]
       sample_collision_worker =
     run sample_collaborators [sample_pass (Put (sample_metadata ''A'' 101 8, 1))]
       (sample_collision_worker\<lparr>frame_id := 1\<rparr>)"
proof -
  have q: "image_queue (act (others (sample_pass (Put (sample_metadata ''A'' 100 7, 0))))
      sample_collision_worker) = (sample_metadata ''A'' 100 7, 0) # []"
    by (simp add: sample_pass_def act_def sample_collision_worker_def)
  have ns: "\<not> stop_event sample_collision_worker"
    by (simp add: sample_collision_worker_def)
  from exception_in_pass_is_caught [OF q, where env = sample_collaborators
      and ps = "[sample_pass (Put (sample_metadata ''A'' 101 8, 1))]"]
  have "sio (fst (loop_body sample_collaborators (sample_pass (Put (sample_metadata ''A'' 100 7, 0)))
            sample_collision_worker)) = sio sample_collision_worker \<and>
        run sample_collaborators
          [sample_pass (Put (sample_metadata ''A'' 100 7, 0)), sample_pass (Put (sample_metadata ''A'' 101 8, 1))]
          sample_collision_worker =
        run sample_collaborators [sample_pass (Put (sample_metadata ''A'' 101 8, 1))]
          (fst (loop_body sample_collaborators (sample_pass (Put (sample_metadata ''A'' 100 7, 0)))
            sample_collision_worker))"
    using ns sample_pass_raises by simp
  with q sample_pass_raises show ?thesis
    by simp
qed

section \<open>Properties of the front ends\<close>

subsection \<open>Frames of unknown sessions\<close>

text \<open>
  A frame for a session id that is not in the registry leaves the registry with
  its queues and workers, and the last timestamp, as they were. The websocket
  handler answers it with one \<^verbatim>\<open>image_error\<close> with the text "Not connected",
  addressed to the namespace sid it came from. \<^verbatim>\<open>Server.image_callback\<close> has
  sent its message only when \<^verbatim>\<open>send_data\<close> takes the namespace sid as its third
  positional argument; otherwise the exception of \<^verbatim>\<open>send_data\<close> leaves the
  handler and nothing is sent.
\<close>

lemma unknown_session_frame_websocket:
  assumes "\<not> dict_in (eio_sid_from_sid env sid Data_namespace) (tasks_ws m)"
  shows "image_callback_websocket env now sid d m =
        (m\<lparr>emitted_ws := emitted_ws m @
            [\<lparr>em_event = ''image_error'',
              em_data = \<lparr>ie_timestamp = timestamp_of d, ie_error = Not_connected\<rparr>,
              em_namespace = ''/data'', em_to = sid\<rparr>]\<rparr>,
         Image_error Not_connected)"
  using assms by (simp add: dict_in_def image_callback_websocket_def emit_image_error_def)

lemma unknown_session_frame_Server:
  assumes "\<not> dict_in (eio_sid_from_sid env sid Data_namespace) (tasks self)"
  shows "image_callback env now sid d self =
     (case send_data env (Text ''Non-registered client tried to send data'')
             DATA_ERROR_EVENT (A_string sid) None of
        Some e \<Rightarrow> (self, Some e)
      | None \<Rightarrow>
          (self\<lparr>outbox := outbox self @
              [Send_data (Text ''Non-registered client tried to send data'')
                 DATA_ERROR_EVENT (A_string sid) None]\<rparr>,
           None))"
  using assms by (simp add: dict_in_def image_callback_def)

text \<open>
  C4 fails in \<^verbatim>\<open>Server.image_callback\<close>, which passes the namespace sid to
  \<^verbatim>\<open>send_data\<close> in the place of the channel type. With the sessions \<open>S1\<close> and
  \<open>S2\<close> registered, a frame of the unknown session \<open>B\<close> ends the handler with
  \<^verbatim>\<open>UnknownChannelTypeUsed\<close>: the state is as before and no error response has
  been sent to \<open>B\<close>. The websocket handler, for the same frame, emits the
  \<^verbatim>\<open>image_error\<close> to \<open>B\<close>.
\<close>

theorem unknown_session_frame_not_answered:
  "image_callback (sample_env 1) 7 ''B'' (sample_frame 5) two_sessions =
     (two_sessions, Some UnknownChannelTypeUsed) \<and>
   outbox two_sessions = [] \<and>
   image_callback_websocket (sample_env 1) 7 ''B'' (sample_frame 5) (module_two [] 3) =
     ((module_two [] 3)\<lparr>emitted_ws :=
        [\<lparr>em_event = ''image_error'',
          em_data = \<lparr>ie_timestamp = 5, ie_error = Not_connected\<rparr>,
          em_namespace = ''/data'', em_to = ''B''\<rparr>]\<rparr>,
      Image_error Not_connected)"
  by (simp add: image_callback_def image_callback_websocket_def emit_image_error_def
      sample_env_def library_send_data_def two_sessions_def module_two_def sample_frame_def
      timestamp_of_def)

subsection \<open>Commands that do not initialise\<close>

text \<open>
  C5, as the handlers have it. A command that is \<^verbatim>\<open>None\<close> or whose type is
  not \<^verbatim>\<open>INIT\<close> leaves the state of \<^verbatim>\<open>Server\<close> as it was, sends nothing, and
  is answered with success: \<open>True\<close> and "Control command applied". In the
  websocket handler a payload from which no command can be built, \<^verbatim>\<open>None\<close>
  included, or one whose command has a type other than \<^verbatim>\<open>SET_STATE\<close>, leaves
  the module as it was and emits nothing: the handler ends with the
  \<^verbatim>\<open>TypeError\<close> of the constructor in the first case and returns without an
  exception in the second.
\<close>

theorem other_command_applied:
  "(\<not> is_cmd command INIT \<longrightarrow>
      command_callback env t0 polls command sid self =
        Some (self, True,
          Control_command_applied (eio_sid_from_sid env sid Control_namespace) sid
            (sid_from_eio_sid env (eio_sid_from_sid env sid Control_namespace) Data_namespace)
            command)) \<and>
   ((case ControlCommand_of payload of Inl e \<Rightarrow> True | Inr c \<Rightarrow> cmd_type c \<noteq> SET_STATE) \<longrightarrow>
      command_callback_websocket env t0 polls sid payload m =
        Some (m, case ControlCommand_of payload of Inl e \<Rightarrow> Some e | Inr c \<Rightarrow> None))"
  by (simp add: command_callback_def command_callback_websocket_def Let_def split: sum.splits)

text \<open>
  The command \<^verbatim>\<open>None\<close> for \<^verbatim>\<open>Server\<close>; the payload \<^verbatim>\<open>None\<close> and the
  command \<^verbatim>\<open>INIT\<close> for the websocket handler.
\<close>

theorem other_command_applied_witness:
  "command_callback (sample_env 1) 0 [] None ''S1'' two_sessions =
     Some (two_sessions, True, Control_command_applied ''S1'' ''S1'' ''S1'' None) \<and>
   command_callback_websocket (sample_env 1) 0 [] ''S1'' None_payload (module_two [] 3) =
     Some (module_two [] 3,
           Some (TypeError ''argument after ** must be a mapping, not NoneType'')) \<and>
   command_callback_websocket (sample_env 1) 0 [] ''S1'' (Fields \<lparr>cmd_type = INIT, data = None\<rparr>)
       (module_two [] 3) =
     Some (module_two [] 3, None)"
  using other_command_applied [where command = None and payload = None_payload
      and env = "sample_env 1" and ?t0.0 = 0 and polls = "[]" and sid = "''S1''"
      and self = two_sessions and m = "module_two [] 3"]
    other_command_applied [where command = None
      and payload = "Fields \<lparr>cmd_type = INIT, data = None\<rparr>"
      and env = "sample_env 1" and ?t0.0 = 0 and polls = "[]" and sid = "''S1''"
      and self = two_sessions and m = "module_two [] 3"]
  by (simp add: sample_env_def is_cmd_def ControlCommand_of_def)

text \<open>
  C5 as stated fails: the command \<^verbatim>\<open>GET_STATE\<close> is not an initialisation, and
  \<^verbatim>\<open>Server.command_callback\<close> answers it with \<open>True\<close>, not with an error, and
  sends no command error.
\<close>

theorem other_command_not_an_error:
  "command_callback (sample_env 1) 0 []
      (Some \<lparr>cmd_type = Other_cmd_type ''GET_STATE'', data = None\<rparr>) ''S1'' two_sessions =
     Some (two_sessions, True,
           Control_command_applied ''S1'' ''S1'' ''S1''
             (Some \<lparr>cmd_type = Other_cmd_type ''GET_STATE'', data = None\<rparr>))"
  by (simp add: command_callback_def sample_env_def Let_def is_cmd_def)

subsection \<open>A second initialisation\<close>

text \<open>
  \<^verbatim>\<open>Server.command_callback\<close> rejects \<^verbatim>\<open>INIT\<close> for a session that is in the
  registry: it sends a command error, returns \<open>False\<close>, and leaves the registry as
  it was.
\<close>

lemma Server_second_init_rejected:
  assumes "dict_in (eio_sid_from_sid env sid Control_namespace) (tasks self)"
    and "cmd_type c = INIT"
  shows "command_callback env t0 polls (Some c) sid self =
     Some (self\<lparr>outbox := outbox self @
              [Send_command_error (Text ''Initialization has already been called before'') sid]\<rparr>,
           False, Text ''Initialization has already been called before'')"
  using assms by (simp add: command_callback_def Let_def is_cmd_def)

text \<open>
  C1 fails in the websocket handler, which has no such test. Session \<open>A\<close> is
  initialised at 30 frames per second and a frame with timestamp 100 is stored in
  its queue. A second \<^verbatim>\<open>SET_STATE\<close> for \<open>A\<close>, at 15 frames per second, raises
  nothing and replaces the entry: the registry then holds a new, empty queue and
  a new worker built at 15 frames per second, and the stored frame and the first
  worker are no longer in it.
\<close>

theorem websocket_second_init_replaces_entry:
  "command_callback_websocket (sample_env 1) 0 [(True, 1)] ''A'' (set_state_fps 30)
       \<lparr>tasks_ws = [], last_timestamp = 0, emitted_ws = []\<rparr> =
     Some (module_A [] 0, None) \<and>
   image_callback_websocket (sample_env 1) 7 ''A'' (sample_frame 100) (module_A [] 0) =
     (module_A [(sample_metadata ''A'' 100 7, 0)] 100, Stored) \<and>
   command_callback_websocket (sample_env 1) 0 [(True, 1)] ''A'' (set_state_fps 15)
       (module_A [(sample_metadata ''A'' 100 7, 0)] 100) =
     Some (\<lparr>tasks_ws =
              [(''A'', \<lparr>task = \<lparr>th_sid = Some ''A'', q = \<lparr>maxsize = 1, queue = []\<rparr>, decoder = None\<rparr>,
                       worker = \<lparr>sw_name = ''Detector A'', sw_fps = 15, sw_started = True,
                                 sw_latencies = []\<rparr>\<rparr>)],
            last_timestamp = 100, emitted_ws = []\<rparr>, None)"
proof -
  have first: "command_callback_websocket (sample_env 1) 0 [(True, 1)] ''A'' (set_state_fps 30)
       \<lparr>tasks_ws = [], last_timestamp = 0, emitted_ws = []\<rparr> =
     Some (module_A [] 0, None)"
    by (simp add: command_callback_websocket_def sample_env_def set_state_fps_def ControlCommand_of_def Let_def
        module_A_def sample_entry_def)
  have frame: "image_callback_websocket (sample_env 1) 7 ''A'' (sample_frame 100) (module_A [] 0) =
     (module_A [(sample_metadata ''A'' 100 7, 0)] 100, Stored)"
    by (simp add: image_callback_websocket_def sample_env_def module_A_def sample_entry_def
        sample_frame_def timestamp_of_def Let_def store_nowait_def put_nowait_def
        sample_metadata_def)
  have second: "command_callback_websocket (sample_env 1) 0 [(True, 1)] ''A'' (set_state_fps 15)
       (module_A [(sample_metadata ''A'' 100 7, 0)] 100) =
     Some (\<lparr>tasks_ws =
              [(''A'', \<lparr>task = \<lparr>th_sid = Some ''A'', q = \<lparr>maxsize = 1, queue = []\<rparr>, decoder = None\<rparr>,
                       worker = \<lparr>sw_name = ''Detector A'', sw_fps = 15, sw_started = True,
                                 sw_latencies = []\<rparr>\<rparr>)],
            last_timestamp = 100, emitted_ws = []\<rparr>, None)"
    by (simp add: command_callback_websocket_def sample_env_def set_state_fps_def ControlCommand_of_def Let_def
        module_A_def sample_entry_def)
  from first frame second show ?thesis by simp
qed

subsection \<open>A worker that does not start in time\<close>

text \<open>
  Both handlers put the new entry into the registry before they wait for the
  worker, and neither takes it out when the wait is given up: after an
  initialisation of \<^verbatim>\<open>Server\<close> that timed out, the session is in the registry.
\<close>

lemma timed_out_entry_stays:
  assumes "\<not> dict_in (eio_sid_from_sid env sid Control_namespace) (tasks self)"
    and "cmd_type c = INIT"
    and "command_callback env t0 polls (Some c) sid self =
           Some (self', False, Text ''Timed out to start worker'')"
  shows "dict_in (eio_sid_from_sid env sid Control_namespace) (tasks self')"
  using assms
  by (auto simp add: command_callback_def Let_def dict_in_def update_conv' is_cmd_def
      split: sum.splits option.splits bool.splits)

text \<open>
  C2 fails in both handlers. The waiting loop starts at clock reading 1 and the
  worker of the new session \<open>S3\<close> is not alive at the readings 2 and 5000000002.
  \<^verbatim>\<open>Server.command_callback\<close> returns \<open>False\<close> with "Timed out to start worker"
  and the websocket handler raises \<^verbatim>\<open>ConnectionRefusedError\<close>, and in both the
  registry holds the entry of \<open>S3\<close> with its queue and its started worker.
\<close>

theorem timed_out_session_registered:
  "command_callback (sample_env 1) 1 [(False, 2), (False, 5000000002)]
       (Some \<lparr>cmd_type = INIT, data = None\<rparr>) ''S3'' \<lparr>tasks = [], outbox = []\<rparr> =
     Some (\<lparr>tasks = [(''S3'', sample_entry 1 None ''Collision Worker S3'' [] [])], outbox = []\<rparr>,
           False, Text ''Timed out to start worker'') \<and>
   command_callback_websocket (sample_env 1) 1 [(False, 2), (False, 5000000002)] ''S3''
       (set_state_fps 30) \<lparr>tasks_ws = [], last_timestamp = 0, emitted_ws = []\<rparr> =
     Some (\<lparr>tasks_ws = [(''S3'', sample_entry 1 (Some ''S3'') ''Detector S3'' [] [])],
            last_timestamp = 0, emitted_ws = []\<rparr>,
           Some (ConnectionRefusedError ''Timed out to start worker.''))"
  by (simp add: command_callback_def command_callback_websocket_def sample_env_def Let_def
      dict_in_def sample_entry_def set_state_fps_def ControlCommand_of_def is_cmd_def data_of_def)

subsection \<open>Frames with an older timestamp\<close>

lemma image_last_timestamp_mono:
  "last_timestamp m \<le> last_timestamp (fst (image_callback_websocket env now sid d m))"
  by (simp add: image_callback_websocket_def emit_image_error_def Let_def
      split: option.splits sum.splits)

lemma command_last_timestamp:
  "command_callback_websocket env t0 polls sid c m = Some (m', r) \<Longrightarrow>
     last_timestamp m' = last_timestamp m"
  by (auto simp add: command_callback_websocket_def Let_def
      split: if_splits sum.splits option.splits bool.splits)

lemma disconnect_last_timestamp:
  "last_timestamp (disconnect_data env sid m) = last_timestamp m"
  by (simp add: disconnect_data_def Let_def split: option.splits)

lemma worker_get_last_timestamp:
  "last_timestamp (worker_get eio_sid m) = last_timestamp m"
  by (simp add: worker_get_def split: option.splits)

lemma ws_handle_last_timestamp_mono:
  assumes "ws_handle env ev m = Some m'"
  shows "last_timestamp m \<le> last_timestamp m'"
proof (cases ev)
  case (Image_event now sid d)
  with assms show ?thesis
    by (auto simp add: ws_handle_def image_last_timestamp_mono)
next
  case (Command_event t0 polls sid payload)
  with assms obtain r where "command_callback_websocket env t0 polls sid payload m = Some (m', r)"
    by (auto simp add: ws_handle_def)
  then show ?thesis
    by (simp add: command_last_timestamp)
next
  case (Disconnect_event sid)
  with assms show ?thesis
    by (auto simp add: ws_handle_def disconnect_last_timestamp)
next
  case (Worker_event eio_sid)
  with assms show ?thesis
    by (auto simp add: ws_handle_def worker_get_last_timestamp)
qed

lemma ws_run_last_timestamp_mono:
  "ws_run env evs m = Some m' \<Longrightarrow> last_timestamp m \<le> last_timestamp m'"
proof (induction evs arbitrary: m)
  case Nil
  then show ?case by simp
next
  case (Cons ev evs)
  from Cons.prems obtain m1 where first: "ws_handle env ev m = Some m1"
    and rest: "ws_run env evs m1 = Some m'"
    by (auto split: option.splits)
  from first have "last_timestamp m \<le> last_timestamp m1"
    by (rule ws_handle_last_timestamp_mono)
  with Cons.IH [OF rest] show ?case by simp
qed

lemma stored_last_timestamp:
  "image_callback_websocket env now sid d m = (m1, Stored) \<Longrightarrow> last_timestamp m1 = timestamp_of d"
  by (auto simp add: image_callback_websocket_def emit_image_error_def Let_def
      split: option.splits sum.splits if_splits)

lemma older_frame_outcome:
  assumes "timestamp_of d < last_timestamp m"
  shows "\<exists>err. image_callback_websocket env now sid d m =
            (emit_image_error sid (timestamp_of d) err m, Image_error err) \<and>
          (dict_in (eio_sid_from_sid env sid Data_namespace) (tasks_ws m) \<and> d_frame d \<noteq> None \<longrightarrow>
             err = Received_frame_with_older_timestamp (timestamp_of d) (last_timestamp m)
                     (timestamp_of d - last_timestamp m))"
  using assms
  by (auto simp add: image_callback_websocket_def Let_def dict_in_def split: option.splits)

text \<open>
  What the websocket handler does keep. After a frame with timestamp \<open>T\<close> was
  stored for a session, and whatever the handlers and the workers did since, a
  frame with a timestamp below \<open>T\<close> is answered with an \<^verbatim>\<open>image_error\<close>, and
  the registry with its queues is as before: nothing is enqueued. When the
  session of the later frame is registered and the data hold a frame, the error
  is the one for an older timestamp. The session of the later frame may be the
  one that stored the first frame or any other.
\<close>

theorem older_frame_rejected:
  assumes "image_callback_websocket env now sid d m = (m1, Stored)"
    and "ws_run env evs m1 = Some m2"
    and "timestamp_of d' < timestamp_of d"
  shows "\<exists>err. image_callback_websocket env now' sid' d' m2 =
            (emit_image_error sid' (timestamp_of d') err m2, Image_error err) \<and>
          tasks_ws (emit_image_error sid' (timestamp_of d') err m2) = tasks_ws m2 \<and>
          (dict_in (eio_sid_from_sid env sid' Data_namespace) (tasks_ws m2) \<and> d_frame d' \<noteq> None \<longrightarrow>
             err = Received_frame_with_older_timestamp (timestamp_of d') (last_timestamp m2)
                     (timestamp_of d' - last_timestamp m2))"
proof -
  from assms(1) have "last_timestamp m1 = timestamp_of d"
    by (rule stored_last_timestamp)
  moreover from assms(2) have "last_timestamp m1 \<le> last_timestamp m2"
    by (rule ws_run_last_timestamp_mono)
  ultimately have "timestamp_of d' < last_timestamp m2"
    using assms(3) by simp
  from older_frame_outcome [OF this, of env now' sid']
  show ?thesis
    by (auto simp add: emit_image_error_def)
qed

lemma sample_stored:
  "image_callback_websocket (sample_env 1) 7 ''S1'' (sample_frame 100) (module_two [] 0) =
     (module_two [(sample_metadata ''S1'' 100 7, 0)] 100, Stored)"
  by (simp add: image_callback_websocket_def sample_env_def module_two_def
      sample_entry_def sample_frame_def timestamp_of_def Let_def
      store_nowait_def put_nowait_def sample_metadata_def)

text \<open>
  Session \<open>S1\<close> stores a frame with timestamp 100, its worker takes the frame,
  session \<open>S2\<close> disconnects and connects again, and a frame of \<open>S1\<close> with
  timestamp 90 is then rejected.
\<close>

theorem older_frame_rejected_witness:
  "image_callback_websocket (sample_env 1) 7 ''S1'' (sample_frame 100) (module_two [] 0) =
     (module_two [(sample_metadata ''S1'' 100 7, 0)] 100, Stored) \<and>
   ws_run (sample_env 1)
       [Worker_event ''S1'', Disconnect_event ''S2'',
        Command_event 0 [(False, 1), (True, 2)] ''S2'' (set_state_fps 30)]
       (module_two [(sample_metadata ''S1'' 100 7, 0)] 100) =
     Some (module_two [] 100) \<and>
   image_callback_websocket (sample_env 1) 9 ''S1'' (sample_frame 90) (module_two [] 100) =
     (emit_image_error ''S1'' 90 (Received_frame_with_older_timestamp 90 100 (- 10))
        (module_two [] 100),
      Image_error (Received_frame_with_older_timestamp 90 100 (- 10)))"
proof -
  have events: "ws_run (sample_env 1)
       [Worker_event ''S1'', Disconnect_event ''S2'',
        Command_event 0 [(False, 1), (True, 2)] ''S2'' (set_state_fps 30)]
       (module_two [(sample_metadata ''S1'' 100 7, 0)] 100) =
     Some (module_two [] 100)"
    by (simp add: ws_handle_def worker_get_def disconnect_data_def command_callback_websocket_def
        module_two_def sample_entry_def sample_env_def set_state_fps_def ControlCommand_of_def Let_def)
  have older: "timestamp_of (sample_frame 90) < timestamp_of (sample_frame 100)"
    by (simp add: timestamp_of_def sample_frame_def)
  have registered: "dict_in (eio_sid_from_sid (sample_env 1) ''S1'' Data_namespace)
      (tasks_ws (module_two [] 100)) \<and> d_frame (sample_frame 90) \<noteq> None"
    by (simp add: dict_in_def sample_env_def module_two_def sample_frame_def)
  have last: "last_timestamp (module_two [] 100) = 100"
    by (simp add: module_two_def)
  from older_frame_rejected [OF sample_stored events older, where now' = 9 and sid' = "''S1''"]
    registered last sample_stored events
  show ?thesis
    by (auto simp add: timestamp_of_def sample_frame_def)
qed

text \<open>
  C3 fails in both front ends. In the websocket module the last accepted
  timestamp is one value for all sessions: session \<open>S2\<close> has stored no frame, its
  frame with timestamp 90 is stored when it comes first, and is rejected as
  older once session \<open>S1\<close> has stored a frame with timestamp 100. In
  \<^verbatim>\<open>Server\<close>, which compares no timestamps, session \<open>S1\<close> stores a frame with
  timestamp 100 and then one with timestamp 90, and both are in its queue.
\<close>

theorem frame_of_other_session_rejected:
  "image_callback_websocket (sample_env 1) 7 ''S1'' (sample_frame 100) (module_two [] 0) =
     (module_two [(sample_metadata ''S1'' 100 7, 0)] 100, Stored) \<and>
   snd (image_callback_websocket (sample_env 1) 8 ''S2'' (sample_frame 90)
          (module_two [(sample_metadata ''S1'' 100 7, 0)] 100)) =
     Image_error (Received_frame_with_older_timestamp 90 100 (- 10)) \<and>
   snd (image_callback_websocket (sample_env 1) 8 ''S2'' (sample_frame 90) (module_two [] 0)) = Stored \<and>
   image_callback (sample_env 2) 7 ''S1'' (sample_frame 100) (server_with_frames []) =
     (server_with_frames [(server_metadata 100 7, 0)], None) \<and>
   image_callback (sample_env 2) 8 ''S1'' (sample_frame 90)
       (server_with_frames [(server_metadata 100 7, 0)]) =
     (server_with_frames [(server_metadata 100 7, 0), (server_metadata 90 8, 0)], None)"
proof -
  have a: "snd (image_callback_websocket (sample_env 1) 8 ''S2'' (sample_frame 90)
          (module_two [(sample_metadata ''S1'' 100 7, 0)] 100)) =
     Image_error (Received_frame_with_older_timestamp 90 100 (- 10))"
    by (simp add: image_callback_websocket_def sample_env_def module_two_def
        sample_entry_def sample_frame_def timestamp_of_def Let_def emit_image_error_def)
  have b: "snd (image_callback_websocket (sample_env 1) 8 ''S2'' (sample_frame 90) (module_two [] 0)) =
      Stored"
    by (simp add: image_callback_websocket_def sample_env_def module_two_def
        sample_entry_def sample_frame_def timestamp_of_def Let_def
        store_nowait_def put_nowait_def)
  have c: "image_callback (sample_env 2) 7 ''S1'' (sample_frame 100) (server_with_frames []) =
     (server_with_frames [(server_metadata 100 7, 0)], None)"
    by (simp add: image_callback_def sample_env_def server_with_frames_def sample_frame_def
        sample_entry_def Let_def store_nowait_def put_nowait_def server_metadata_def)
  have d: "image_callback (sample_env 2) 8 ''S1'' (sample_frame 90)
       (server_with_frames [(server_metadata 100 7, 0)]) =
     (server_with_frames [(server_metadata 100 7, 0), (server_metadata 90 8, 0)], None)"
    by (simp add: image_callback_def sample_env_def server_with_frames_def sample_frame_def
        sample_entry_def Let_def store_nowait_def put_nowait_def server_metadata_def)
  from sample_stored a b c d show ?thesis
    by simp
qed

subsection \<open>The heart beat\<close>

lemma all_latencies_concat_aux:
  "fold (\<lambda>tw ls. ls @ get_latencies env (worker tw)) xs acc =
     acc @ concat (map (\<lambda>tw. get_latencies env (worker tw)) xs)"
  by (induction xs arbitrary: acc) simp_all

lemma all_latencies_concat:
  "all_latencies env ts = concat (map (\<lambda>kv. get_latencies env (worker (snd kv))) ts)"
  by (simp add: all_latencies_def all_latencies_concat_aux comp_def)

text \<open>
  C6. In both front ends the report of a heart beat has, as its robot count, the
  number of entries of the registry and, as its average latency, the sum of the
  latencies of all workers, taken in the order of the registry, divided by their
  number, or 0 when there is none. With no session the report has latency 0 and
  count 0; with the sessions \<open>S1\<close> with latencies 10 and 20 and \<open>S2\<close> with latency
  30 it has latency 20 and count 2. The mean is taken in exact arithmetic.
\<close>

theorem heart_beat_mean_and_count:
  "avg_latency (heart_beat env self) =
     (if concat (map (\<lambda>kv. get_latencies env (worker (snd kv))) (tasks self)) = [] then 0
      else sum_list (concat (map (\<lambda>kv. get_latencies env (worker (snd kv))) (tasks self))) /
           real (length (concat (map (\<lambda>kv. get_latencies env (worker (snd kv))) (tasks self))))) \<and>
   current_robot_count (heart_beat env self) = length (tasks self) \<and>
   avg_latency (heart_beat_timer env m) =
     (if concat (map (\<lambda>kv. get_latencies env (worker (snd kv))) (tasks_ws m)) = [] then 0
      else sum_list (concat (map (\<lambda>kv. get_latencies env (worker (snd kv))) (tasks_ws m))) /
           real (length (concat (map (\<lambda>kv. get_latencies env (worker (snd kv))) (tasks_ws m))))) \<and>
   current_robot_count (heart_beat_timer env m) = length (tasks_ws m) \<and>
   avg_latency (heart_beat (sample_env 1) \<lparr>tasks = [], outbox = []\<rparr>) = 0 \<and>
   current_robot_count (heart_beat (sample_env 1) \<lparr>tasks = [], outbox = []\<rparr>) = 0 \<and>
   avg_latency (heart_beat (sample_env 1) two_sessions) = 20 \<and>
   current_robot_count (heart_beat (sample_env 1) two_sessions) = 2"
proof -
  have general: "avg_latency (heart_beat e s) =
     (if concat (map (\<lambda>kv. get_latencies e (worker (snd kv))) (tasks s)) = [] then 0
      else sum_list (concat (map (\<lambda>kv. get_latencies e (worker (snd kv))) (tasks s))) /
           real (length (concat (map (\<lambda>kv. get_latencies e (worker (snd kv))) (tasks s)))))"
    for e :: "('a, 'b, 'c) surroundings" and s :: "('a, 'b, 'c) Server"
    by (simp add: heart_beat_def Let_def all_latencies_concat np_mean_def)
  have general_ws: "avg_latency (heart_beat_timer env m) =
     (if concat (map (\<lambda>kv. get_latencies env (worker (snd kv))) (tasks_ws m)) = [] then 0
      else sum_list (concat (map (\<lambda>kv. get_latencies env (worker (snd kv))) (tasks_ws m))) /
           real (length (concat (map (\<lambda>kv. get_latencies env (worker (snd kv))) (tasks_ws m)))))"
    by (simp add: heart_beat_timer_def Let_def all_latencies_concat np_mean_def)
  have counts: "current_robot_count (heart_beat e s) = length (tasks s)"
    for e :: "('a, 'b, 'c) surroundings" and s :: "('a, 'b, 'c) Server"
    by (simp add: heart_beat_def Let_def)
  have count_ws: "current_robot_count (heart_beat_timer env m) = length (tasks_ws m)"
    by (simp add: heart_beat_timer_def Let_def)
  have none: "avg_latency (heart_beat (sample_env 1) \<lparr>tasks = [], outbox = []\<rparr>) = 0"
    by (simp add: heart_beat_def Let_def all_latencies_def)
  have none_count: "current_robot_count (heart_beat (sample_env 1) \<lparr>tasks = [], outbox = []\<rparr>) = 0"
    by (simp add: heart_beat_def Let_def)
  have two: "avg_latency (heart_beat (sample_env 1) two_sessions) = 20"
    by (simp add: heart_beat_def Let_def all_latencies_def np_mean_def two_sessions_def
        sample_entry_def sample_env_def)
  have two_count: "current_robot_count (heart_beat (sample_env 1) two_sessions) = 2"
    by (simp add: heart_beat_def Let_def two_sessions_def)
  show ?thesis
    using general [of env self] general_ws counts [of env self] count_ws none none_count two two_count
    by blast
qed

text \<open>
  C10, as the handlers have it. Whatever the queues hold, the report of
  \<^verbatim>\<open>Server.heart_beat\<close> has the queue size \<^verbatim>\<open>NETAPP_INPUT_QUEUE\<close> and the
  queue occupancy 1, and the report of \<^verbatim>\<open>heart_beat_timer\<close> has the queue size
  1 and the queue occupancy 1.
\<close>

theorem heart_beat_queue_fields:
  "queue_size (heart_beat env self) = NETAPP_INPUT_QUEUE env \<and>
   queue_occupancy (heart_beat env self) = 1 \<and>
   queue_size (heart_beat_timer env m) = 1 \<and>
   queue_occupancy (heart_beat_timer env m) = 1"
  by (simp add: heart_beat_def heart_beat_timer_def Let_def)

text \<open>With two frames in a queue of capacity 2 the occupancy reported is still 1.\<close>

theorem heart_beat_queue_fields_witness:
  "queue_size (heart_beat (sample_env 2)
      (server_with_frames [(server_metadata 100 7, 0), (server_metadata 90 8, 0)])) = 2 \<and>
   queue_occupancy (heart_beat (sample_env 2)
      (server_with_frames [(server_metadata 100 7, 0), (server_metadata 90 8, 0)])) = 1 \<and>
   queue_size (heart_beat_timer (sample_env 1) (module_two [(sample_metadata ''S1'' 100 7, 0)] 100)) = 1 \<and>
   queue_occupancy (heart_beat_timer (sample_env 1) (module_two [(sample_metadata ''S1'' 100 7, 0)] 100)) = 1"
  using heart_beat_queue_fields [where env = "sample_env 2"
      and self = "server_with_frames [(server_metadata 100 7, 0), (server_metadata 90 8, 0)]"
      and m = "module_two [(sample_metadata ''S1'' 100 7, 0)] 100"]
    heart_beat_queue_fields [where env = "sample_env 1"
      and self = "server_with_frames []"
      and m = "module_two [(sample_metadata ''S1'' 100 7, 0)] 100"]
  by (simp add: sample_env_def)

text \<open>
  C10 as stated fails for \<^verbatim>\<open>heart_beat_timer\<close>: with
  \<^verbatim>\<open>NETAPP_INPUT_QUEUE\<close> set to 5 the websocket handler builds queues of
  capacity 5, and the report has the queue size 1.
\<close>

theorem heart_beat_timer_queue_size_not_capacity:
  "NETAPP_INPUT_QUEUE (sample_env 5) = 5 \<and>
   command_callback_websocket (sample_env 5) 0 [(True, 1)] ''A'' (set_state_fps 30)
       \<lparr>tasks_ws = [], last_timestamp = 0, emitted_ws = []\<rparr> =
     Some (\<lparr>tasks_ws = [(''A'', sample_entry 5 (Some ''A'') ''Detector A'' [] [])],
            last_timestamp = 0, emitted_ws = []\<rparr>, None) \<and>
   queue_size (heart_beat_timer (sample_env 5)
      \<lparr>tasks_ws = [(''A'', sample_entry 5 (Some ''A'') ''Detector A'' [] [])],
       last_timestamp = 0, emitted_ws = []\<rparr>) = 1"
  by (simp add: heart_beat_timer_def command_callback_websocket_def Let_def sample_env_def
      set_state_fps_def ControlCommand_of_def sample_entry_def)

end
